theory Spec2Isabelle
  imports Main
begin

section \<open>Labour reporting: the storage engine of \<^verbatim>\<open>app.py\<close>\<close>

text \<open>
  The development embeds the storage functions of \<^verbatim>\<open>app.py\<close>: the locked file, the
  per-day counter, the record codec, the aggregate appender, the atomic writer and
  the day query.

  Conventions.
  \<^item> \<^verbatim>\<open>bytes\<close> is a list of \<open>char\<close> (a \<open>char\<close> is one byte); a Python \<^verbatim>\<open>str\<close> is a list of
    code points (\<open>nat\<close>). \<open>u ''abc''\<close> is the \<^verbatim>\<open>str\<close> literal \<^verbatim>\<open>"abc"\<close>.
  \<^item> What the program takes from libraries that are not part of the repository is a
    parameter \<open>L\<close> of every function that uses it: the XML parser and serialiser
    (\<^verbatim>\<open>ET.fromstring\<close>, \<^verbatim>\<open>ET.tostring\<close>), the float operations, the character classes of
    the Unicode database above U+00FF, the failure of \<^verbatim>\<open>pytz\<close>'s \<^verbatim>\<open>localize\<close>, and
    whether \<^verbatim>\<open>os.name\<close> is \<^verbatim>\<open>"nt"\<close>.
    Theorems hold for every \<open>L\<close>.
  \<^item> A raised exception is a value \<open>Inl e\<close>; the file system is passed explicitly.
  \<^item> Python's limit on the length of decimal conversions is the parameter
    \<open>int_max_str_digits\<close> (0 when it is switched off; the interpreter refuses a positive
    limit below 640): \<^verbatim>\<open>int\<close> of a longer text and \<^verbatim>\<open>str\<close> of a longer number raise
    \<^verbatim>\<open>ValueError\<close>. The ids that \<^verbatim>\<open>build_occupation_element\<close> formats are ids that the
    counter has returned, whose text is within the limit.
\<close>

subsection \<open>Library parameters\<close>

type_synonym bytes = "char list"
type_synonym pystr = "nat list"

datatype element =
  Element (tag: pystr) (attrib: "(pystr \<times> pystr) list") (etext: "pystr option")
          (children: "element list") (etail: "pystr option")

record datetime =
  dt_year :: nat
  dt_month :: nat
  dt_day :: nat
  dt_hour :: nat
  dt_minute :: nat
  dt_second :: nat

record 'f pylib =
  ucd_space :: "nat \<Rightarrow> bool"
  ucd_digit :: "nat \<Rightarrow> bool"
  ucd_decimal :: "nat \<Rightarrow> nat option"
  tz_fails :: "datetime \<Rightarrow> bool"
  os_nt :: bool
  int_max_str_digits :: nat
  fromstring :: "bytes \<Rightarrow> element option"
  tostring :: "element \<Rightarrow> bytes"
  float_of_str :: "pystr \<Rightarrow> 'f option"
  str_float :: "'f \<Rightarrow> pystr"
  round_nd :: "'f \<Rightarrow> nat \<Rightarrow> 'f"
  float_zero :: "'f"

datatype error = ValueError | FileNotFoundError | OverflowError | ParseError

subsection \<open>Text: \<^verbatim>\<open>str\<close> and \<^verbatim>\<open>bytes\<close> methods\<close>

definition u :: "string \<Rightarrow> pystr" where
  "u s = map of_char s"

text \<open>\<^verbatim>\<open>str.isspace\<close>, \<^verbatim>\<open>str.isdigit\<close> and the decimal value of a character. Below U+0100 the
  classes are written out; above, they are the library's.\<close>

definition py_isspace :: "'f pylib \<Rightarrow> nat \<Rightarrow> bool" where
  "py_isspace L c =
     (if c < 256 then (9 \<le> c \<and> c \<le> 13) \<or> (28 \<le> c \<and> c \<le> 32) \<or> c = 133 \<or> c = 160
      else ucd_space L c)"

definition py_isdigit_char :: "'f pylib \<Rightarrow> nat \<Rightarrow> bool" where
  "py_isdigit_char L c =
     (if c < 256 then (48 \<le> c \<and> c \<le> 57) \<or> c = 178 \<or> c = 179 \<or> c = 185
      else ucd_digit L c)"

definition py_decimal :: "'f pylib \<Rightarrow> nat \<Rightarrow> nat option" where
  "py_decimal L c =
     (if c < 256 then (if 48 \<le> c \<and> c \<le> 57 then Some (c - 48) else None)
      else ucd_decimal L c)"

definition py_lstrip :: "'f pylib \<Rightarrow> pystr \<Rightarrow> pystr" where
  "py_lstrip L s = dropWhile (py_isspace L) s"

definition py_rstrip :: "'f pylib \<Rightarrow> pystr \<Rightarrow> pystr" where
  "py_rstrip L s = rev (dropWhile (py_isspace L) (rev s))"

definition py_strip :: "'f pylib \<Rightarrow> pystr \<Rightarrow> pystr" where
  "py_strip L s = py_rstrip L (py_lstrip L s)"

definition py_isdigit :: "'f pylib \<Rightarrow> pystr \<Rightarrow> bool" where
  "py_isdigit L s = (s \<noteq> [] \<and> list_all (py_isdigit_char L) s)"

text \<open>\<^verbatim>\<open>int(s)\<close> for a text of digit characters: every character needs a decimal value,
  and the text must not be longer than the limit on decimal conversions, otherwise
  \<^verbatim>\<open>int\<close> raises \<^verbatim>\<open>ValueError\<close>.\<close>

definition too_many_digits :: "'f pylib \<Rightarrow> nat \<Rightarrow> bool" where
  "too_many_digits L n = (int_max_str_digits L \<noteq> 0 \<and> max 640 (int_max_str_digits L) < n)"

fun decimal_value :: "'f pylib \<Rightarrow> nat \<Rightarrow> pystr \<Rightarrow> nat option" where
  "decimal_value L acc [] = Some acc"
| "decimal_value L acc (c # cs) =
     (case py_decimal L c of
        None \<Rightarrow> None
      | Some d \<Rightarrow> decimal_value L (10 * acc + d) cs)"

definition py_int :: "'f pylib \<Rightarrow> pystr \<Rightarrow> error + int" where
  "py_int L s =
     (if s = [] \<or> too_many_digits L (length s) then Inl ValueError
      else case decimal_value L 0 s of None \<Rightarrow> Inl ValueError | Some n \<Rightarrow> Inr (int n))"

text \<open>The decimal text of an integer, and \<^verbatim>\<open>str(n)\<close>, which raises when the number has
  more digits than the limit.\<close>

fun str_nat :: "nat \<Rightarrow> pystr" where
  "str_nat n = (if n < 10 then [48 + n] else str_nat (n div 10) @ [48 + n mod 10])"

declare str_nat.simps [simp del]

definition py_str_int :: "int \<Rightarrow> pystr" where
  "py_str_int i = (if i < 0 then 45 # str_nat (nat (- i)) else str_nat (nat i))"

definition py_str :: "'f pylib \<Rightarrow> int \<Rightarrow> error + pystr" where
  "py_str L i =
     (if too_many_digits L (length (str_nat (nat \<bar>i\<bar>))) then Inl ValueError
      else Inr (py_str_int i))"

text \<open>\<^verbatim>\<open>s.encode("utf-8")\<close>, used on decimal text only, where it is the identity on code
  points.\<close>

definition encode_ascii :: "pystr \<Rightarrow> bytes" where
  "encode_ascii s = map char_of s"

text \<open>\<^verbatim>\<open>b.decode("utf-8", errors="ignore")\<close>: an invalid start byte is dropped, a sequence
  broken by a bad continuation byte is dropped up to that byte, a sequence cut by the
  end of the data is dropped.\<close>

definition is_cont :: "nat \<Rightarrow> bool" where
  "is_cont b = (128 \<le> b \<and> b < 192)"

definition ok_second3 :: "nat \<Rightarrow> nat \<Rightarrow> bool" where
  "ok_second3 b0 b1 =
     (is_cont b1 \<and> \<not> (b0 = 224 \<and> b1 < 160) \<and> \<not> (b0 = 237 \<and> 160 \<le> b1))"

definition ok_second4 :: "nat \<Rightarrow> nat \<Rightarrow> bool" where
  "ok_second4 b0 b1 =
     (is_cont b1 \<and> \<not> (b0 = 240 \<and> b1 < 144) \<and> \<not> (b0 = 244 \<and> 144 \<le> b1))"

fun utf8_ignore :: "nat list \<Rightarrow> pystr" where
  "utf8_ignore [] = []"
| "utf8_ignore (b0 # rest) =
     (if b0 < 128 then b0 # utf8_ignore rest
      else if b0 < 194 then utf8_ignore rest
      else if b0 < 224 then
        (case rest of
           [] \<Rightarrow> []
         | b1 # r1 \<Rightarrow>
             if is_cont b1 then ((b0 mod 32) * 64 + b1 mod 64) # utf8_ignore r1
             else utf8_ignore rest)
      else if b0 < 240 then
        (case rest of
           [] \<Rightarrow> []
         | b1 # r1 \<Rightarrow>
             if \<not> ok_second3 b0 b1 then utf8_ignore rest
             else (case r1 of
                     [] \<Rightarrow> []
                   | b2 # r2 \<Rightarrow>
                       if is_cont b2
                       then ((b0 mod 16) * 4096 + (b1 mod 64) * 64 + b2 mod 64) # utf8_ignore r2
                       else utf8_ignore r1))
      else if b0 < 245 then
        (case rest of
           [] \<Rightarrow> []
         | b1 # r1 \<Rightarrow>
             if \<not> ok_second4 b0 b1 then utf8_ignore rest
             else (case r1 of
                     [] \<Rightarrow> []
                   | b2 # r2 \<Rightarrow>
                       if \<not> is_cont b2 then utf8_ignore r1
                       else (case r2 of
                               [] \<Rightarrow> []
                             | b3 # r3 \<Rightarrow>
                                 if is_cont b3
                                 then ((b0 mod 8) * 262144 + (b1 mod 64) * 4096
                                        + (b2 mod 64) * 64 + b3 mod 64) # utf8_ignore r3
                                 else utf8_ignore r2)))
      else utf8_ignore rest)"

definition decode_utf8_ignore :: "bytes \<Rightarrow> pystr" where
  "decode_utf8_ignore b = utf8_ignore (map of_char b)"

text \<open>\<^verbatim>\<open>b.lstrip(b"\x00").lstrip()\<close> on bytes: leading NUL bytes, then leading ASCII
  white space.\<close>

definition bytes_isspace :: "char \<Rightarrow> bool" where
  "bytes_isspace c = (let n = (of_char c :: nat) in (9 \<le> n \<and> n \<le> 13) \<or> n = 32)"

definition lstrip_padding :: "bytes \<Rightarrow> bytes" where
  "lstrip_padding b = dropWhile bytes_isspace (dropWhile (\<lambda>c. c = char_of (0::nat)) b)"


subsection \<open>Dates and file names\<close>

record date =
  d_year :: nat
  d_month :: nat
  d_day :: nat

definition is_leap :: "nat \<Rightarrow> bool" where
  "is_leap y = (y mod 4 = 0 \<and> (y mod 100 \<noteq> 0 \<or> y mod 400 = 0))"

definition days_in_month :: "nat \<Rightarrow> nat \<Rightarrow> nat" where
  "days_in_month y m =
     (if m = 2 then (if is_leap y then 29 else 28)
      else if m = 4 \<or> m = 6 \<or> m = 9 \<or> m = 11 then 30 else 31)"

definition days_before_year :: "nat \<Rightarrow> nat" where
  "days_before_year y = (y - 1) * 365 + (y - 1) div 4 - (y - 1) div 100 + (y - 1) div 400"

definition days_before_month :: "nat \<Rightarrow> nat \<Rightarrow> nat" where
  "days_before_month y m = sum_list (map (days_in_month y) [1 ..< m])"

definition toordinal :: "nat \<Rightarrow> nat \<Rightarrow> nat \<Rightarrow> nat" where
  "toordinal y m d = days_before_year y + days_before_month y m + d"

text \<open>\<^verbatim>\<open>weekday()\<close>: Monday is 0.\<close>

definition weekday :: "nat \<Rightarrow> nat \<Rightarrow> nat \<Rightarrow> nat" where
  "weekday y m d = (toordinal y m d + 6) mod 7"

definition day_abbr :: "nat \<Rightarrow> pystr" where
  "day_abbr n = [u ''Mon'', u ''Tue'', u ''Wed'', u ''Thu'', u ''Fri'', u ''Sat'', u ''Sun''] ! (n mod 7)"

text \<open>A number padded with zeros to a width, as \<^verbatim>\<open>%Y\<close>, \<^verbatim>\<open>%m\<close>, \<^verbatim>\<open>%d\<close>, \<^verbatim>\<open>%H\<close>, \<^verbatim>\<open>%M\<close>, \<^verbatim>\<open>%S\<close> print
  it (\<^verbatim>\<open>%Y\<close> to four digits; C libraries differ below the year 1000, where no claim
  depends on it).\<close>

definition zpad :: "nat \<Rightarrow> nat \<Rightarrow> pystr" where
  "zpad w n = replicate (w - length (str_nat n)) 48 @ str_nat n"

definition strftime_ymd :: "datetime \<Rightarrow> pystr" where
  "strftime_ymd dt = zpad 4 (dt_year dt) @ u ''-'' @ zpad 2 (dt_month dt) @ u ''-'' @ zpad 2 (dt_day dt)"

definition strftime_hms :: "datetime \<Rightarrow> pystr" where
  "strftime_hms dt =
     zpad 2 (dt_hour dt) @ u '':'' @ zpad 2 (dt_minute dt) @ u '':'' @ zpad 2 (dt_second dt)"

definition strftime_ymd_a :: "datetime \<Rightarrow> pystr" where
  "strftime_ymd_a dt =
     strftime_ymd dt @ u ''_'' @ day_abbr (weekday (dt_year dt) (dt_month dt) (dt_day dt))"

definition fmt_dt :: "datetime \<Rightarrow> pystr" where
  "fmt_dt dt = strftime_ymd dt @ u '' '' @ strftime_hms dt"

text \<open>\<^verbatim>\<open>pytz.timezone(TIMEZONE).localize(dt)\<close> attaches the zone to a naive datetime and
  keeps its wall-clock fields; where the library raises is the parameter
  \<open>tz_fails\<close>.\<close>

definition tz_localize :: "'f pylib \<Rightarrow> datetime \<Rightarrow> error + datetime" where
  "tz_localize L dt = (if tz_fails L dt then Inl OverflowError else Inr dt)"

definition dt_date :: "datetime \<Rightarrow> date" where
  "dt_date dt = \<lparr>d_year = dt_year dt, d_month = dt_month dt, d_day = dt_day dt\<rparr>"

definition midnight :: "date \<Rightarrow> datetime" where
  "midnight day =
     \<lparr>dt_year = d_year day, dt_month = d_month day, dt_day = d_day day,
      dt_hour = 0, dt_minute = 0, dt_second = 0\<rparr>"

type_synonym path = pystr

definition BASE_DIR :: path where
  "BASE_DIR = u ''data''"

definition TIMEZONE :: pystr where
  "TIMEZONE = u ''Australia/Sydney''"

definition COUNTER_START :: int where
  "COUNTER_START = 300"

definition counter_file_for_day :: "'f pylib \<Rightarrow> date \<Rightarrow> error + path" where
  "counter_file_for_day L day =
     (case tz_localize L (midnight day) of
        Inl e \<Rightarrow> Inl e
      | Inr syd_midnight \<Rightarrow>
          Inr (BASE_DIR @ u ''/'' @ strftime_ymd_a syd_midnight @ u ''_counter.txt''))"

definition daily_all_file_path :: "'f pylib \<Rightarrow> date \<Rightarrow> error + path" where
  "daily_all_file_path L day =
     (case tz_localize L (midnight day) of
        Inl e \<Rightarrow> Inl e
      | Inr syd_midnight \<Rightarrow>
          Inr (BASE_DIR @ u ''/'' @ strftime_ymd_a syd_midnight @ u ''_allEmployee.xml''))"

subsection \<open>Files, file handles and the locked file\<close>

type_synonym fs = "path \<rightharpoonup> bytes"

record handle =
  h_data :: bytes
  h_pos :: nat

definition f_seek :: "handle \<Rightarrow> nat \<Rightarrow> handle" where
  "f_seek f n = f\<lparr>h_pos := n\<rparr>"

definition f_seek_end :: "handle \<Rightarrow> handle" where
  "f_seek_end f = f\<lparr>h_pos := length (h_data f)\<rparr>"

definition f_tell :: "handle \<Rightarrow> nat" where
  "f_tell f = h_pos f"

definition f_read :: "handle \<Rightarrow> bytes \<times> handle" where
  "f_read f = (drop (h_pos f) (h_data f), f\<lparr>h_pos := max (h_pos f) (length (h_data f))\<rparr>)"

text \<open>A write replaces the bytes from the position on and extends the file when it
  runs past the end (a position past the end fills the gap with NUL bytes).\<close>

definition f_write :: "handle \<Rightarrow> bytes \<Rightarrow> handle" where
  "f_write f b =
     (let d = h_data f; p = h_pos f;
          before = take p d @ replicate (p - length d) (char_of (0::nat))
      in f\<lparr>h_data := before @ b @ drop (p + length b) d, h_pos := p + length b\<rparr>)"

definition f_truncate :: "handle \<Rightarrow> handle" where
  "f_truncate f =
     (let d = h_data f; p = h_pos f
      in f\<lparr>h_data := take p d @ replicate (p - length d) (char_of (0::nat))\<rparr>)"

text \<open>\<^verbatim>\<open>open(path, mode)\<close> for the modes the program uses: a \<^verbatim>\<open>w\<close> mode creates or empties
  the file, any other mode needs the file to exist.\<close>

definition open_file :: "fs \<Rightarrow> path \<Rightarrow> string \<Rightarrow> error + (fs \<times> handle)" where
  "open_file files p mode =
     (if CHR ''w'' \<in> set mode then Inr (files(p \<mapsto> []), \<lparr>h_data = [], h_pos = 0\<rparr>)
      else case files p of
             None \<Rightarrow> Inl FileNotFoundError
           | Some d \<Rightarrow> Inr (files, \<lparr>h_data = d, h_pos = 0\<rparr>))"

text \<open>\<^verbatim>\<open>locked_file\<close> run by one caller alone: the body of the \<^verbatim>\<open>with\<close> block is a function
  of the handle, and what it wrote is in the file when the block is left, also when
  it raised.\<close>

definition locked_file ::
  "'f pylib \<Rightarrow> fs \<Rightarrow> path \<Rightarrow> string \<Rightarrow> (handle \<Rightarrow> handle \<times> (error + 'a)) \<Rightarrow> fs \<times> (error + 'a)" where
  "locked_file L files p mode body =
     (let files1 =
            (if CHR ''r'' \<in> set mode \<and> CHR ''+'' \<in> set mode \<and> files p = None
             then files(p \<mapsto> []) else files)
      in case open_file files1 p mode of
           Inl e \<Rightarrow> (files1, Inl e)
         | Inr (files2, f) \<Rightarrow>
             let f1 = (if os_nt L
                       then (let fe = f_seek_end f;
                                 fp = (if f_tell fe = 0 then f_write fe '' '' else fe)
                             in f_seek fp 0)
                       else f);
                 (f2, r) = body f1
             in (files2(p \<mapsto> h_data f2), r))"

subsection \<open>The per-day counter\<close>

definition counter_body :: "'f pylib \<Rightarrow> handle \<Rightarrow> handle \<times> (error + int)" where
  "counter_body L f =
     (let f1 = f_seek f 0;
          (b, f2) = f_read f1;
          raw = py_strip L (decode_utf8_ignore b)
      in case (if py_isdigit L raw then py_int L raw else Inr COUNTER_START) of
           Inl e \<Rightarrow> (f2, Inl e)
         | Inr parsed \<Rightarrow>
             let current = (if parsed < COUNTER_START then COUNTER_START else parsed);
                 next_value = current + 1;
                 f3 = f_seek f2 0;
                 f4 = f_truncate f3
             in case py_str L next_value of
                  Inl e \<Rightarrow> (f4, Inl e)
                | Inr txt \<Rightarrow> (f_write f4 (encode_ascii txt), Inr current))"

definition get_next_occupation_id_for_day :: "'f pylib \<Rightarrow> fs \<Rightarrow> date \<Rightarrow> fs \<times> (error + int)" where
  "get_next_occupation_id_for_day L files day =
     (case counter_file_for_day L day of
        Inl e \<Rightarrow> (files, Inl e)
      | Inr cfile \<Rightarrow>
          let files1 = (if files cfile = None
                        then files(cfile \<mapsto> encode_ascii (py_str_int COUNTER_START))
                        else files)
          in locked_file L files1 cfile ''r+b'' (counter_body L))"

subsection \<open>Concurrent callers of the counter\<close>

text \<open>Callers of \<^verbatim>\<open>get_next_occupation_id_for_day\<close> for one day, run on the \<^verbatim>\<open>flock\<close> branch of
  \<^verbatim>\<open>locked_file\<close>. Each caller is at one of the points of the function; a step runs one
  caller up to its next point:
  \<^item> \<open>Start\<close>: \<^verbatim>\<open>cfile.exists()\<close> is evaluated;
  \<^item> \<open>Create\<close>: \<^verbatim>\<open>cfile.write_bytes(b"300")\<close>;
  \<^item> \<open>Open\<close>: \<^verbatim>\<open>locked_file\<close> creates the file if it is missing and opens it;
  \<^item> \<open>Lock\<close>: \<^verbatim>\<open>fcntl.flock(f, LOCK_EX)\<close>, which waits while another caller holds the lock;
  \<^item> \<open>Crit\<close>: the body of the \<^verbatim>\<open>with\<close> block, run in one piece;
  \<^item> \<open>Unlock\<close>: the lock is released and the file closed;
  \<^item> \<open>Done\<close>: the caller has returned (or raised).\<close>

datatype pc = Start | Create | Open | Lock | Crit | Unlock "error + int" | Done "error + int"

record sys =
  s_file :: "bytes option"
  s_lock :: "nat option"
  s_pcs :: "pc list"

definition file_bytes :: "bytes option \<Rightarrow> bytes" where
  "file_bytes fo = (case fo of None \<Rightarrow> [] | Some b \<Rightarrow> b)"

definition step :: "'f pylib \<Rightarrow> nat \<Rightarrow> sys \<Rightarrow> sys" where
  "step L i s =
     (if length (s_pcs s) \<le> i then s
      else case s_pcs s ! i of
        Start \<Rightarrow> s\<lparr>s_pcs := (s_pcs s)[i := (if s_file s = None then Create else Open)]\<rparr>
      | Create \<Rightarrow> s\<lparr>s_file := Some (encode_ascii (py_str_int COUNTER_START)),
                     s_pcs := (s_pcs s)[i := Open]\<rparr>
      | Open \<Rightarrow> s\<lparr>s_file := Some (file_bytes (s_file s)), s_pcs := (s_pcs s)[i := Lock]\<rparr>
      | Lock \<Rightarrow> (if s_lock s = None then s\<lparr>s_lock := Some i, s_pcs := (s_pcs s)[i := Crit]\<rparr>
                 else s)
      | Crit \<Rightarrow> (let (f, r) = counter_body L \<lparr>h_data = file_bytes (s_file s), h_pos = 0\<rparr>
                 in s\<lparr>s_file := Some (h_data f), s_pcs := (s_pcs s)[i := Unlock r]\<rparr>)
      | Unlock r \<Rightarrow> s\<lparr>s_lock := None, s_pcs := (s_pcs s)[i := Done r]\<rparr>
      | Done r \<Rightarrow> s)"

definition run :: "'f pylib \<Rightarrow> nat list \<Rightarrow> sys \<Rightarrow> sys" where
  "run L schedule s = fold (step L) schedule s"

definition returned :: "sys \<Rightarrow> (error + int) option list" where
  "returned s = map (\<lambda>p. case p of Done r \<Rightarrow> Some r | _ \<Rightarrow> None) (s_pcs s)"

definition callers :: "bytes option \<Rightarrow> nat \<Rightarrow> sys" where
  "callers fo n = \<lparr>s_file = fo, s_lock = None, s_pcs = replicate n Start\<rparr>"

subsection \<open>XML bytes and the atomic writer\<close>

definition xml_decl :: bytes where
  "xml_decl = ''<?xml version=\"1.0\" encoding=\"UTF-8\"?>\<newline>\<newline>''"

definition xml_to_bytes :: "'f pylib \<Rightarrow> element \<Rightarrow> bytes" where
  "xml_to_bytes L elem = xml_decl @ tostring L elem"

text \<open>\<^verbatim>\<open>path.with_suffix(path.suffix + ".tmp-" + hex)\<close> puts the new suffix in the place of the
  old one, which appends \<^verbatim>\<open>.tmp-\<close> and the hex digits of the UUID to the path. The UUID is
  an argument.\<close>

definition tmp_path :: "path \<Rightarrow> pystr \<Rightarrow> path" where
  "tmp_path p hex = p @ u ''.tmp-'' @ hex"

text \<open>The states of the file system while \<^verbatim>\<open>atomic_write_bytes\<close> runs, in order: the state
  before the call, the temporary file created empty and then filled (one state for every
  length the write may have reached), and the state after \<^verbatim>\<open>os.replace\<close>. An interrupted
  or failed run stops in one of the states before the last.\<close>

definition atomic_write_trace :: "fs \<Rightarrow> path \<Rightarrow> pystr \<Rightarrow> bytes \<Rightarrow> fs list" where
  "atomic_write_trace files p hex content =
     (let tmp = tmp_path p hex
      in files # map (\<lambda>k. files(tmp \<mapsto> take k content)) [0 ..< Suc (length content)]
           @ [(files(tmp := None))(p \<mapsto> content)])"

definition atomic_write_bytes :: "fs \<Rightarrow> path \<Rightarrow> pystr \<Rightarrow> bytes \<Rightarrow> fs" where
  "atomic_write_bytes files p hex content = last (atomic_write_trace files p hex content)"

subsection \<open>The record codec: encoding\<close>

text \<open>\<^verbatim>\<open>str.splitlines()\<close> and \<^verbatim>\<open>" ".join(...)\<close>.\<close>

definition is_linebreak :: "nat \<Rightarrow> bool" where
  "is_linebreak c = ((10 \<le> c \<and> c \<le> 13) \<or> (28 \<le> c \<and> c \<le> 30) \<or> c = 133 \<or> c = 8232 \<or> c = 8233)"

fun splitlines_from :: "pystr \<Rightarrow> pystr \<Rightarrow> pystr list" where
  "splitlines_from cur [] = (if cur = [] then [] else [rev cur])"
| "splitlines_from cur [c] =
     (if is_linebreak c then [rev cur] else splitlines_from (c # cur) [])"
| "splitlines_from cur (c # c' # cs) =
     (if c = 13 \<and> c' = 10 then rev cur # splitlines_from [] cs
      else if is_linebreak c then rev cur # splitlines_from [] (c' # cs)
      else splitlines_from (c # cur) (c' # cs))"

definition py_splitlines :: "pystr \<Rightarrow> pystr list" where
  "py_splitlines s = splitlines_from [] s"

fun join_space :: "pystr list \<Rightarrow> pystr" where
  "join_space [] = []"
| "join_space [x] = x"
| "join_space (x # y # ys) = x @ 32 # join_space (y # ys)"

text \<open>\<^verbatim>\<open>ET.SubElement(parent, tag, attrib)\<close> appends a new element with neither text nor
  tail; \<^verbatim>\<open>parent.append(child)\<close> appends an element.\<close>

fun append_child :: "element \<Rightarrow> element \<Rightarrow> element" where
  "append_child (Element t a x cs z) child = Element t a x (cs @ [child]) z"

definition new_element :: "pystr \<Rightarrow> (pystr \<times> pystr) list \<Rightarrow> element" where
  "new_element t a = Element t a None [] None"

fun with_text :: "element \<Rightarrow> pystr \<Rightarrow> element" where
  "with_text (Element t a x cs z) s = Element t a (Some s) cs z"

definition build_occupation_element ::
  "'f pylib \<Rightarrow> int \<Rightarrow> pystr \<Rightarrow> datetime \<Rightarrow> 'f \<Rightarrow> pystr \<Rightarrow> pystr \<Rightarrow> pystr \<Rightarrow> pystr \<Rightarrow> element" where
  "build_occupation_element L occ_id technician_code occ_dt duration_hours wo_code hour_type
       occupation_type comments =
     (let occ0 = new_element (u ''occupation'') [(u ''id'', py_str_int occ_id)];
          occ1 = append_child occ0
                   (new_element (u ''occupation_technician'') [(u ''code'', technician_code)]);
          od = with_text (new_element (u ''occupation_occupationDate'') []) (fmt_dt occ_dt);
          occ2 = append_child occ1 od;
          dur = with_text (new_element (u ''occupation_duration'') [])
                  (str_float L (round_nd L duration_hours 6));
          occ3 = append_child occ2 dur;
          occ4 = append_child occ3 (new_element (u ''occupation_WO'') [(u ''code'', wo_code)]);
          occ5 = append_child occ4 (new_element (u ''occupation_hourType'') [(u ''code'', hour_type)]);
          occ6 = (if py_strip L occupation_type \<noteq> []
                  then append_child occ5
                         (new_element (u ''occupation_type'') [(u ''code'', py_strip L occupation_type)])
                  else occ5);
          desc = with_text (new_element (u ''description_description'') [])
                   (py_strip L (join_space (py_splitlines comments)));
          comm = append_child (new_element (u ''occupation_comments'') []) desc;
          occ7 = append_child occ6 comm;
          oid = with_text (new_element (u ''occupation_id'') []) (py_str_int occ_id)
      in append_child occ7 oid)"

definition fresh_entities :: element where
  "fresh_entities =
     new_element (u ''entities'')
       [(u ''exchangeInterface'', u ''OCCUPATION_IN''), (u ''externalSystem'', []),
        (u ''timezone'', TIMEZONE)]"

definition build_entities_xml_with_one :: "'f pylib \<Rightarrow> element \<Rightarrow> bytes" where
  "build_entities_xml_with_one L occupation_elem =
     xml_to_bytes L (append_child fresh_entities occupation_elem)"

subsection \<open>The aggregate appender\<close>

text \<open>The \<^verbatim>\<open>try\<close> block of \<^verbatim>\<open>append_to_daily_all\<close>: the parser's failure and the \<^verbatim>\<open>ValueError\<close>
  raised for a root that is not \<^verbatim>\<open>entities\<close> both end in the \<^verbatim>\<open>except\<close> branch.\<close>

definition parse_entities :: "'f pylib \<Rightarrow> bytes \<Rightarrow> error + element" where
  "parse_entities L existing =
     (case fromstring L existing of
        None \<Rightarrow> Inl ParseError
      | Some root \<Rightarrow> if tag root \<noteq> u ''entities'' then Inl ValueError else Inr root)"

definition append_body :: "'f pylib \<Rightarrow> element \<Rightarrow> handle \<Rightarrow> handle \<times> (error + unit)" where
  "append_body L occupation_elem f =
     (let f1 = f_seek_end f;
          size = f_tell f1;
          (root, f2) =
            (if size = 0 then (fresh_entities, f1)
             else (let f1a = f_seek f1 0;
                       (existing0, f1b) = f_read f1a;
                       existing = lstrip_padding existing0
                   in case parse_entities L existing of
                        Inl e \<Rightarrow> (fresh_entities, f1b)
                      | Inr parsed \<Rightarrow> (parsed, f1b)));
          root1 = append_child root occupation_elem;
          new_content = xml_to_bytes L root1;
          f3 = f_seek f2 0;
          f4 = f_write f3 new_content;
          f5 = f_truncate f4
      in (f5, Inr ()))"

definition append_to_daily_all :: "'f pylib \<Rightarrow> fs \<Rightarrow> date \<Rightarrow> element \<Rightarrow> fs \<times> (error + unit)" where
  "append_to_daily_all L files day occupation_elem =
     (case daily_all_file_path L day of
        Inl e \<Rightarrow> (files, Inl e)
      | Inr out_path \<Rightarrow>
          let mode = (if files out_path \<noteq> None then ''r+b'' else ''w+b'')
          in locked_file L files out_path mode (append_body L occupation_elem))"

text \<open>What a reader of the aggregate file gets out of its bytes: the root, when the
  bytes without their padding parse and the root is \<^verbatim>\<open>entities\<close>.\<close>

definition read_envelope :: "'f pylib \<Rightarrow> bytes \<Rightarrow> element option" where
  "read_envelope L b =
     (case parse_entities L (lstrip_padding b) of Inl e \<Rightarrow> None | Inr root \<Rightarrow> Some root)"

text \<open>Two trees are the same document when they differ at most in an empty text or tail
  being absent: a parser returns \<^verbatim>\<open>None\<close> for the text that \<^verbatim>\<open>tostring\<close> wrote for \<^verbatim>\<open>""\<close>.\<close>

definition text_or :: "pystr option \<Rightarrow> pystr \<Rightarrow> pystr" where
  "text_or t d = (case t of None \<Rightarrow> d | Some s \<Rightarrow> if s = [] then d else s)"

fun same_xml :: "element \<Rightarrow> element \<Rightarrow> bool" where
  "same_xml (Element t a x cs z) (Element t' a' x' cs' z') =
     (t = t' \<and> a = a' \<and> text_or x [] = text_or x' [] \<and> text_or z [] = text_or z' []
      \<and> list_all2 same_xml cs cs')"

text \<open>The parser reads the serialisation of \<open>t\<close> back as \<open>t'\<close>, the same document.\<close>

definition reads_back :: "'f pylib \<Rightarrow> element \<Rightarrow> element \<Rightarrow> bool" where
  "reads_back L t t' = (fromstring L (lstrip_padding (xml_to_bytes L t)) = Some t' \<and> same_xml t' t)"

subsection \<open>The day query\<close>

text \<open>\<^verbatim>\<open>datetime.strptime(s, "%Y-%m-%d %H:%M:%S")\<close>. The format is compiled to the regular
  expression
  \<^verbatim>\<open>(\d\d\d\d)-(1[0-2]|0[1-9]|[1-9])-(3[0-1]|[1-2]\d|0[1-9]|[1-9]| [1-9])\s+\<close>
  \<^verbatim>\<open>(2[0-3]|[0-1]\d|\d):([0-5]\d|\d):(6[0-1]|[0-5]\d|\d)\<close>,
  matched at the start of the text; a matcher returns the ways it can match a prefix, in
  the order the regular expression engine tries them, and the first way the whole
  expression matches is taken. Text left over, or fields that are no date and time,
  raise \<^verbatim>\<open>ValueError\<close> (\<open>None\<close>).\<close>

type_synonym matcher = "pystr \<Rightarrow> (pystr \<times> pystr) list"

definition re_lit :: "nat \<Rightarrow> matcher" where
  "re_lit c s = (case s of [] \<Rightarrow> [] | x # r \<Rightarrow> if x = c then [([x], r)] else [])"

definition re_range :: "nat \<Rightarrow> nat \<Rightarrow> matcher" where
  "re_range lo hi s = (case s of [] \<Rightarrow> [] | x # r \<Rightarrow> if lo \<le> x \<and> x \<le> hi then [([x], r)] else [])"

definition re_dec :: "'f pylib \<Rightarrow> matcher" where
  "re_dec L s = (case s of [] \<Rightarrow> [] | x # r \<Rightarrow> if py_decimal L x \<noteq> None then [([x], r)] else [])"

definition re_seq :: "matcher \<Rightarrow> matcher \<Rightarrow> matcher" where
  "re_seq a b s = concat (map (\<lambda>(x, r). map (\<lambda>(y, r'). (x @ y, r')) (b r)) (a s))"

definition re_alt :: "matcher list \<Rightarrow> matcher" where
  "re_alt ms s = concat (map (\<lambda>m. m s) ms)"

definition re_spaces :: "'f pylib \<Rightarrow> matcher" where
  "re_spaces L s =
     (let n = length (takeWhile (py_isspace L) s)
      in map (\<lambda>k. (take k s, drop k s)) (rev [1 ..< Suc n]))"

definition re_Y :: "'f pylib \<Rightarrow> matcher" where
  "re_Y L = re_seq (re_dec L) (re_seq (re_dec L) (re_seq (re_dec L) (re_dec L)))"

definition re_m :: "'f pylib \<Rightarrow> matcher" where
  "re_m L = re_alt [re_seq (re_lit 49) (re_range 48 50), re_seq (re_lit 48) (re_range 49 57),
                    re_range 49 57]"

definition re_d :: "'f pylib \<Rightarrow> matcher" where
  "re_d L = re_alt [re_seq (re_lit 51) (re_range 48 49), re_seq (re_range 49 50) (re_dec L),
                    re_seq (re_lit 48) (re_range 49 57), re_range 49 57,
                    re_seq (re_lit 32) (re_range 49 57)]"

definition re_H :: "'f pylib \<Rightarrow> matcher" where
  "re_H L = re_alt [re_seq (re_lit 50) (re_range 48 51), re_seq (re_range 48 49) (re_dec L),
                    re_dec L]"

definition re_M :: "'f pylib \<Rightarrow> matcher" where
  "re_M L = re_alt [re_seq (re_range 48 53) (re_dec L), re_dec L]"

definition re_S :: "'f pylib \<Rightarrow> matcher" where
  "re_S L = re_alt [re_seq (re_lit 54) (re_range 48 49), re_seq (re_range 48 53) (re_dec L),
                    re_dec L]"

text \<open>A field of the format with the separator that follows it: the ways the field
  matches for which the separator matches next, with the text of the field and what
  is left after the separator.\<close>

definition re_field :: "matcher \<Rightarrow> matcher \<Rightarrow> matcher" where
  "re_field g sep s = List.bind (g s) (\<lambda>(x, r). map (\<lambda>(y, r'). (x, r')) (sep r))"

definition format_match ::
  "'f pylib \<Rightarrow> pystr \<Rightarrow> ((pystr \<times> pystr \<times> pystr \<times> pystr \<times> pystr \<times> pystr) \<times> pystr) list" where
  "format_match L s =
     List.bind (re_field (re_Y L) (re_lit 45) s) (\<lambda>(y, r1).
     List.bind (re_field (re_m L) (re_lit 45) r1) (\<lambda>(m, r2).
     List.bind (re_field (re_d L) (re_spaces L) r2) (\<lambda>(d, r3).
     List.bind (re_field (re_H L) (re_lit 58) r3) (\<lambda>(h, r4).
     List.bind (re_field (re_M L) (re_lit 58) r4) (\<lambda>(mi, r5).
     map (\<lambda>(se, r6). ((y, m, d, h, mi, se), r6)) (re_S L r5))))))"

text \<open>\<^verbatim>\<open>int(found_dict[...])\<close> on a matched field (the day may start with a space).\<close>

definition int_field :: "'f pylib \<Rightarrow> pystr \<Rightarrow> nat option" where
  "int_field L g = (let s = py_strip L g in if s = [] then None else decimal_value L 0 s)"

definition valid_datetime :: "datetime \<Rightarrow> bool" where
  "valid_datetime dt =
     (1 \<le> dt_year dt \<and> dt_year dt \<le> 9999 \<and> 1 \<le> dt_month dt \<and> dt_month dt \<le> 12
      \<and> 1 \<le> dt_day dt \<and> dt_day dt \<le> days_in_month (dt_year dt) (dt_month dt)
      \<and> dt_hour dt < 24 \<and> dt_minute dt < 60 \<and> dt_second dt < 60)"

definition strptime :: "'f pylib \<Rightarrow> pystr \<Rightarrow> datetime option" where
  "strptime L s =
     (case format_match L s of
        [] \<Rightarrow> None
      | ((y, m, d, h, mi, se), rest) # others \<Rightarrow>
          if rest \<noteq> [] then None
          else (case (int_field L y, int_field L m, int_field L d,
                      int_field L h, int_field L mi, int_field L se) of
                  (Some yy, Some mm, Some dd, Some hh, Some mn, Some ss) \<Rightarrow>
                    (let dt = \<lparr>dt_year = yy, dt_month = mm, dt_day = dd,
                               dt_hour = hh, dt_minute = mn, dt_second = ss\<rparr>
                     in if valid_datetime dt then Some dt else None)
                | other \<Rightarrow> None))"

text \<open>\<^verbatim>\<open>elem.find(tag)\<close>, \<^verbatim>\<open>_safe_text\<close>, \<^verbatim>\<open>_safe_attr\<close> (the attributes are a dictionary: a
  list of pairs with distinct keys) and \<^verbatim>\<open>_safe_float\<close>.\<close>

definition find_child :: "pystr \<Rightarrow> element \<Rightarrow> element option" where
  "find_child t e = List.find (\<lambda>c. tag c = t) (children e)"

definition safe_text :: "'f pylib \<Rightarrow> element option \<Rightarrow> pystr \<Rightarrow> pystr" where
  "safe_text L elem dflt =
     (case elem of None \<Rightarrow> dflt | Some e \<Rightarrow> py_strip L (text_or (etext e) dflt))"

definition safe_attr :: "'f pylib \<Rightarrow> element option \<Rightarrow> pystr \<Rightarrow> pystr \<Rightarrow> pystr" where
  "safe_attr L elem key dflt =
     (case elem of
        None \<Rightarrow> dflt
      | Some e \<Rightarrow> py_strip L (text_or (map_of (attrib e) key) dflt))"

definition safe_float :: "'f pylib \<Rightarrow> pystr \<Rightarrow> 'f" where
  "safe_float L x = (case float_of_str L x of None \<Rightarrow> float_zero L | Some v \<Rightarrow> v)"

record 'f row =
  Time :: pystr
  WO :: pystr
  Time_Type :: pystr
  Occ_Type :: pystr
  Hours :: 'f
  Comment :: pystr

text \<open>The body of the loop of \<^verbatim>\<open>get_user_entries_for_day\<close> for one file, from the parsed
  root on; \<open>None\<close> is a \<^verbatim>\<open>continue\<close>. \<open>row_at\<close> is the dictionary that is appended to the
  rows, for the occupation element and its localised timestamp.\<close>

definition row_at :: "'f pylib \<Rightarrow> element \<Rightarrow> datetime \<Rightarrow> 'f row" where
  "row_at L occ occ_dt =
     (let wo_code = safe_attr L (find_child (u ''occupation_WO'') occ) (u ''code'') [];
          hour_type = safe_attr L (find_child (u ''occupation_hourType'') occ) (u ''code'') [];
          occ_type = safe_attr L (find_child (u ''occupation_type'') occ) (u ''code'') [];
          hours = safe_float L (safe_text L (find_child (u ''occupation_duration'') occ) (u ''0''));
          comment_elem = find_child (u ''occupation_comments'') occ;
          desc_elem = (case comment_elem of
                         None \<Rightarrow> None
                       | Some ce \<Rightarrow> find_child (u ''description_description'') ce);
          comment = safe_text L desc_elem []
      in \<lparr>Time = strftime_hms occ_dt, WO = wo_code, Time_Type = hour_type,
          Occ_Type = occ_type, Hours = round_nd L hours 3, Comment = comment\<rparr>)"

definition row_of_root :: "'f pylib \<Rightarrow> date \<Rightarrow> element \<Rightarrow> 'f row option" where
  "row_of_root L selected_day root =
     (if tag root \<noteq> u ''entities'' then None
      else case find_child (u ''occupation'') root of
        None \<Rightarrow> None
      | Some occ \<Rightarrow>
          let dt_txt = safe_text L (find_child (u ''occupation_occupationDate'') occ) []
          in if dt_txt = [] then None
             else case strptime L dt_txt of
               None \<Rightarrow> None
             | Some naive \<Rightarrow>
                 (case tz_localize L naive of
                    Inl e \<Rightarrow> None
                  | Inr occ_dt \<Rightarrow>
                      if dt_date occ_dt \<noteq> selected_day then None
                      else Some (row_at L occ occ_dt)))"

text \<open>One file of the folder: \<open>None\<close> for a file that cannot be read, otherwise its
  bytes. A failed read and a failed parse are caught by the \<^verbatim>\<open>except\<close> of the loop.\<close>

definition row_of_file :: "'f pylib \<Rightarrow> date \<Rightarrow> bytes option \<Rightarrow> 'f row option" where
  "row_of_file L selected_day file =
     (case file of
        None \<Rightarrow> None
      | Some b \<Rightarrow>
          (case fromstring L (lstrip_padding b) of
             None \<Rightarrow> None
           | Some root \<Rightarrow> row_of_root L selected_day root))"

text \<open>\<^verbatim>\<open>sort_values(["Time", "WO"])\<close>: a stable sort on the two columns, texts compared by
  code points.\<close>

fun str_less :: "pystr \<Rightarrow> pystr \<Rightarrow> bool" where
  "str_less [] [] = False"
| "str_less [] (y # ys) = True"
| "str_less (x # xs) [] = False"
| "str_less (x # xs) (y # ys) = (x < y \<or> (x = y \<and> str_less xs ys))"

definition row_less :: "'f row \<Rightarrow> 'f row \<Rightarrow> bool" where
  "row_less a b = (str_less (Time a) (Time b) \<or> (Time a = Time b \<and> str_less (WO a) (WO b)))"

fun insert_row :: "'f row \<Rightarrow> 'f row list \<Rightarrow> 'f row list" where
  "insert_row r [] = [r]"
| "insert_row r (x # xs) = (if row_less x r then x # insert_row r xs else r # x # xs)"

definition sort_values :: "'f row list \<Rightarrow> 'f row list" where
  "sort_values rs = foldr insert_row rs []"

record 'f dataframe =
  columns :: "pystr list"
  rows :: "'f row list"

definition COLUMNS :: "pystr list" where
  "COLUMNS = [u ''Time'', u ''WO'', u ''Time Type'', u ''Occ Type'', u ''Hours'', u ''Comment'']"

text \<open>The user folder is \<open>None\<close> when it does not exist, and otherwise the files that
  \<^verbatim>\<open>sorted(user_folder.glob("*.xml"))\<close> yields, in that order.\<close>

definition get_user_entries_for_day ::
  "'f pylib \<Rightarrow> bytes option list option \<Rightarrow> date \<Rightarrow> 'f dataframe" where
  "get_user_entries_for_day L user_folder selected_day =
     (case user_folder of
        None \<Rightarrow> \<lparr>columns = COLUMNS, rows = []\<rparr>
      | Some files \<Rightarrow>
          let rs = List.map_filter (row_of_file L selected_day) files
          in if rs = [] then \<lparr>columns = COLUMNS, rows = []\<rparr>
             else \<lparr>columns = COLUMNS, rows = sort_values rs\<rparr>)"

text \<open>The timestamp that the loop decodes from a root before it compares its date with
  the selected day: \<open>None\<close> where the loop has left the file by then.\<close>

definition occupation_time :: "'f pylib \<Rightarrow> element \<Rightarrow> datetime option" where
  "occupation_time L root =
     (if tag root \<noteq> u ''entities'' then None
      else case find_child (u ''occupation'') root of
        None \<Rightarrow> None
      | Some occ \<Rightarrow>
          let dt_txt = safe_text L (find_child (u ''occupation_occupationDate'') occ) []
          in if dt_txt = [] then None
             else case strptime L dt_txt of
               None \<Rightarrow> None
             | Some naive \<Rightarrow> (case tz_localize L naive of Inl e \<Rightarrow> None | Inr occ_dt \<Rightarrow> Some occ_dt))"

text \<open>A file that gives no timestamp: it cannot be read, or it does not parse, or its root
  is not \<^verbatim>\<open>entities\<close>, or the root has no \<^verbatim>\<open>occupation\<close> child, or the occupation has no
  text in \<^verbatim>\<open>occupation_occupationDate\<close>, or the text is not a date and time that
  \<^verbatim>\<open>strptime\<close> and \<^verbatim>\<open>localize\<close> accept.\<close>

definition undecodable :: "'f pylib \<Rightarrow> bytes option \<Rightarrow> bool" where
  "undecodable L file =
     (case file of
        None \<Rightarrow> True
      | Some b \<Rightarrow>
          (case fromstring L (lstrip_padding b) of
             None \<Rightarrow> True
           | Some root \<Rightarrow>
               tag root \<noteq> u ''entities'' \<or>
               (case find_child (u ''occupation'') root of
                  None \<Rightarrow> True
                | Some occ \<Rightarrow>
                    (let dt_txt = safe_text L (find_child (u ''occupation_occupationDate'') occ) []
                     in dt_txt = [] \<or>
                        (case strptime L dt_txt of None \<Rightarrow> True | Some naive \<Rightarrow> tz_fails L naive)))))"

text \<open>The float library reads the text of \<open>x\<close> back as \<open>x\<close>.\<close>

definition float_reads_back :: "'f pylib \<Rightarrow> 'f \<Rightarrow> bool" where
  "float_reads_back L x = (str_float L x \<noteq> [] \<and> float_of_str L (py_strip L (str_float L x)) = Some x)"

subsection \<open>A library instance for evaluation\<close>

text \<open>Where a theorem is evaluated at a concrete input, the library is this instance:
  \<^item> no white space or digits above U+00FF, a \<^verbatim>\<open>localize\<close> that does not fail, the \<^verbatim>\<open>flock\<close>
    platform, the limit of 4300 digits on decimal conversions;
  \<^item> \<open>ref_tostring\<close>: what \<^verbatim>\<open>ET.tostring(elem, encoding="utf-8")\<close> writes for a tree without
    namespaces (\<^verbatim>\<open>_serialize_xml\<close>, \<^verbatim>\<open>_escape_cdata\<close>, \<^verbatim>\<open>_escape_attrib\<close>);
  \<^item> \<open>table_fromstring\<close>: a parser given by the documents it knows; it reads the
    serialisation of a listed tree back as that tree, with an empty text or tail
    absent, and rejects every other input; as every XML parser does, it rejects input
    that holds a control character other than tab, line feed and carriage return,
    which no XML document may hold;
  \<^item> floats as fixed-point numbers: the integer \<open>n\<close> stands for \<open>n / 10\<^sup>6\<close>, printed and read
    in decimal notation and rounded to decimal places. On the values that are
    evaluated here (at most six decimal places, no rounding of a tie) this is what
    the binary floats of Python print, read and round to.\<close>

definition escape_cdata :: "pystr \<Rightarrow> pystr" where
  "escape_cdata s =
     concat (map (\<lambda>c. if c = 38 then u ''&amp;'' else if c = 60 then u ''&lt;''
                        else if c = 62 then u ''&gt;'' else [c]) s)"

definition escape_attrib :: "pystr \<Rightarrow> pystr" where
  "escape_attrib s =
     concat (map (\<lambda>c. if c = 38 then u ''&amp;'' else if c = 60 then u ''&lt;''
                        else if c = 62 then u ''&gt;'' else if c = 34 then u ''&quot;''
                        else if c = 13 then u ''&#13;'' else if c = 10 then u ''&#10;''
                        else if c = 9 then u ''&#09;'' else [c]) s)"

definition ser_attrib :: "(pystr \<times> pystr) list \<Rightarrow> pystr" where
  "ser_attrib a = concat (map (\<lambda>(k, v). 32 # k @ u ''=\"'' @ escape_attrib v @ u ''\"'') a)"

fun serialize_xml :: "element \<Rightarrow> pystr" where
  "serialize_xml (Element t a x cs z) =
     60 # t @ ser_attrib a
     @ (if text_or x [] \<noteq> [] \<or> cs \<noteq> []
        then 62 # escape_cdata (text_or x []) @ concat (map serialize_xml cs) @ u ''</'' @ t @ u ''>''
        else u '' />'')
     @ escape_cdata (text_or z [])"

definition utf8_char :: "nat \<Rightarrow> nat list" where
  "utf8_char c =
     (if c < 128 then [c]
      else if c < 2048 then [192 + c div 64, 128 + c mod 64]
      else if c < 65536 then [224 + c div 4096, 128 + (c div 64) mod 64, 128 + c mod 64]
      else [240 + c div 262144, 128 + (c div 4096) mod 64, 128 + (c div 64) mod 64, 128 + c mod 64])"

definition ref_tostring :: "element \<Rightarrow> bytes" where
  "ref_tostring e = map char_of (concat (map utf8_char (serialize_xml e)))"

fun reparsed :: "element \<Rightarrow> element" where
  "reparsed (Element t a x cs z) =
     Element t a (if x = Some [] then None else x) (map reparsed cs)
       (if z = Some [] then None else z)"

definition xml_char_ok :: "char \<Rightarrow> bool" where
  "xml_char_ok c = (let n = (of_char c :: nat) in 32 \<le> n \<or> n = 9 \<or> n = 10 \<or> n = 13)"

definition table_fromstring :: "element list \<Rightarrow> bytes \<Rightarrow> element option" where
  "table_fromstring docs b =
     (if list_all xml_char_ok b
      then map_option reparsed (List.find (\<lambda>t. xml_decl @ ref_tostring t = b) docs)
      else None)"

definition fx_digits :: "nat \<Rightarrow> pystr" where
  "fx_digits n = rev (dropWhile (\<lambda>c. c = 48) (rev (zpad 6 n)))"

definition fx_str :: "int \<Rightarrow> pystr" where
  "fx_str n =
     (let m = nat \<bar>n\<bar>; frac = fx_digits (m mod 1000000)
      in (if n < 0 then [45] else []) @ str_nat (m div 1000000) @ 46 #
         (if frac = [] then [48] else frac))"

definition ascii_digits :: "pystr \<Rightarrow> bool" where
  "ascii_digits s = list_all (\<lambda>c. 48 \<le> c \<and> c \<le> 57) s"

definition nat_of_digits :: "pystr \<Rightarrow> nat" where
  "nat_of_digits s = foldl (\<lambda>a c. 10 * a + (c - 48)) 0 s"

definition fx_of_str :: "pystr \<Rightarrow> int option" where
  "fx_of_str s =
     (let ip = takeWhile (\<lambda>c. c \<noteq> 46) s; fp = drop (Suc (length ip)) s
      in if ip = [] \<or> \<not> ascii_digits ip \<or> \<not> ascii_digits fp \<or> 6 < length fp
            \<or> (length ip < length s \<and> fp = [])
         then None
         else Some (int (nat_of_digits ip * 1000000
                         + nat_of_digits (fp @ replicate (6 - length fp) 48))))"

definition fx_round :: "int \<Rightarrow> nat \<Rightarrow> int" where
  "fx_round n k =
     (if 6 \<le> k then n
      else let m = 10 ^ (6 - k); q = n div m; r = n mod m
           in if m < 2 * r \<or> (2 * r = m \<and> odd q) then (q + 1) * m else q * m)"

definition eval_lib :: "element list \<Rightarrow> int pylib" where
  "eval_lib docs =
     \<lparr>ucd_space = (\<lambda>c. False), ucd_digit = (\<lambda>c. False), ucd_decimal = (\<lambda>c. None),
      tz_fails = (\<lambda>dt. False), os_nt = False, int_max_str_digits = 4300,
      fromstring = table_fromstring docs, tostring = ref_tostring,
      float_of_str = fx_of_str, str_float = fx_str, round_nd = fx_round,
      float_zero = 0\<rparr>"

definition plain_lib :: "int pylib" where
  "plain_lib = eval_lib []"

definition day_2026_01_08 :: date where
  "day_2026_01_08 = \<lparr>d_year = 2026, d_month = 1, d_day = 8\<rparr>"

text \<open>Two records, the aggregate documents that hold the first and both, and the library
  that knows these documents.\<close>

definition rec1 :: element where
  "rec1 = Element (u ''occupation'') [(u ''id'', u ''300'')] None [] None"

definition rec2 :: element where
  "rec2 = Element (u ''occupation'') [(u ''id'', u ''301'')] None [] None"

definition doc1 :: element where
  "doc1 = append_child fresh_entities rec1"

definition doc12 :: element where
  "doc12 = append_child doc1 rec2"

definition lib12 :: "int pylib" where
  "lib12 = eval_lib [doc1, doc12]"

text \<open>A record whose comment holds the control character U+0008, the aggregate document
  with it after the first record, and the library that knows both documents.\<close>

definition rec_ctrl :: element where
  "rec_ctrl = build_occupation_element plain_lib 301 (u ''JOE'')
                \<lparr>dt_year = 2026, dt_month = 1, dt_day = 8, dt_hour = 10, dt_minute = 0, dt_second = 0\<rparr>
                1000000 (u ''WO-7'') (u ''NORMAL'') [] [97, 8, 98]"

definition doc_ctrl :: element where
  "doc_ctrl = append_child doc1 rec_ctrl"

definition lib_ctrl :: "int pylib" where
  "lib_ctrl = eval_lib [doc1, doc_ctrl]"

definition all_2026_01_08 :: path where
  "all_2026_01_08 = u ''data/2026-01-08_Thu_allEmployee.xml''"

text \<open>A per-user document with the timestamp 2026-01-08 23:59:59, as the program writes
  it, and one whose occupation has a timestamp and nothing else.\<close>

definition dt_2359 :: datetime where
  "dt_2359 = \<lparr>dt_year = 2026, dt_month = 1, dt_day = 8, dt_hour = 23, dt_minute = 59, dt_second = 59\<rparr>"

definition occ_2359 :: element where
  "occ_2359 = build_occupation_element plain_lib 300 (u ''JOE'') dt_2359 333333 (u ''WO-7'')
                (u ''NORMAL'') [] (u ''done'')"

definition doc_2359 :: element where
  "doc_2359 = append_child fresh_entities occ_2359"

definition occ_date_only :: element where
  "occ_date_only =
     Element (u ''occupation'') [] None
       [Element (u ''occupation_occupationDate'') [] (Some (u ''2026-01-08 10:00:00'')) [] None] None"

definition doc_date_only :: element where
  "doc_date_only = append_child fresh_entities occ_date_only"

definition lib_2359 :: "int pylib" where
  "lib_2359 = eval_lib [doc_2359]"

definition lib_date_only :: "int pylib" where
  "lib_date_only = eval_lib [doc_date_only]"


section \<open>Properties\<close>

subsection \<open>The counter\<close>

lemma h_data_rewrite:
  "h_data (f_write (f_truncate (f_seek f 0)) b) = b"
  by (simp add: f_write_def f_truncate_def f_seek_def Let_def)

lemma counter_body_data:
  "counter_body L \<lparr>h_data = d, h_pos = 0\<rparr> =
     (let raw = py_strip L (decode_utf8_ignore d)
      in case (if py_isdigit L raw then py_int L raw else Inr COUNTER_START) of
           Inl e \<Rightarrow> (\<lparr>h_data = d, h_pos = length d\<rparr>, Inl e)
         | Inr parsed \<Rightarrow>
             (let current = (if parsed < COUNTER_START then COUNTER_START else parsed)
              in case py_str L (current + 1) of
                   Inl e \<Rightarrow> (\<lparr>h_data = [], h_pos = 0\<rparr>, Inl e)
                 | Inr txt \<Rightarrow>
                     (\<lparr>h_data = encode_ascii txt, h_pos = length (encode_ascii txt)\<rparr>,
                      Inr current)))"
  by (simp add: counter_body_def f_read_def f_seek_def f_truncate_def f_write_def Let_def
           split: sum.splits)

lemma strip_space: "py_strip L (decode_utf8_ignore '' '') = []"
  by (simp add: py_strip_def py_lstrip_def py_rstrip_def decode_utf8_ignore_def py_isspace_def)

lemma strip_empty: "py_strip L (decode_utf8_ignore []) = []"
  by (simp add: py_strip_def py_lstrip_def py_rstrip_def decode_utf8_ignore_def)

lemma locked_counter:
  "locked_file L files p ''r+b'' (counter_body L) =
     (let d0 = (case files p of None \<Rightarrow> [] | Some b \<Rightarrow> b);
          d = (if os_nt L \<and> d0 = [] then '' '' else d0);
          (f, r) = counter_body L \<lparr>h_data = d, h_pos = 0\<rparr>
      in (files(p \<mapsto> h_data f), r))"
  by (auto simp add: locked_file_def open_file_def Let_def f_seek_end_def f_tell_def
        f_write_def f_seek_def split: option.splits prod.splits)

text \<open>What one call does when the stored text is not of digit characters, or is of
  decimal digits within the limit on decimal conversions, and the successor is within
  the limit too: it returns the stored value raised to the base and leaves the
  successor in the file.\<close>

lemma counter_postcondition:
  assumes cf: "counter_file_for_day L day = Inr cfile"
      and st: "stored = (case files cfile of
                           None \<Rightarrow> encode_ascii (py_str_int COUNTER_START) | Some b \<Rightarrow> b)"
      and raw: "raw = py_strip L (decode_utf8_ignore stored)"
      and ok: "py_isdigit L raw \<Longrightarrow> py_int L raw = Inr v"
      and r: "r = (if py_isdigit L raw then max v COUNTER_START else COUNTER_START)"
      and lim: "py_str L (r + 1) = Inr txt"
  shows "get_next_occupation_id_for_day L files day =
           (files(cfile \<mapsto> encode_ascii txt), Inr r)"
proof -
  define files1 where "files1 = (if files cfile = None
                        then files(cfile \<mapsto> encode_ascii (py_str_int COUNTER_START))
                        else files)"
  have f1: "files1 cfile = Some stored"
    by (auto simp: files1_def st split: option.splits)
  define d where "d = (if os_nt L \<and> stored = [] then '' '' else stored)"
  have rawd: "py_strip L (decode_utf8_ignore d) = raw"
    by (simp add: d_def raw strip_space strip_empty)
  have upd: "files1(cfile \<mapsto> x) = files(cfile \<mapsto> x)" for x
    by (simp add: files1_def)
  have "get_next_occupation_id_for_day L files day =
          locked_file L files1 cfile ''r+b'' (counter_body L)"
    by (simp add: get_next_occupation_id_for_day_def cf files1_def Let_def)
  also have "\<dots> = (files(cfile \<mapsto> encode_ascii txt), Inr r)"
  proof (cases "py_isdigit L raw")
    case True
    with ok have pi: "py_int L raw = Inr v" by simp
    have cur: "(if v < COUNTER_START then COUNTER_START else v) = r"
      using True r by (simp add: max_def)
    show ?thesis
      by (simp add: locked_counter f1 counter_body_data rawd d_def[symmetric] Let_def upd True pi
            cur lim)
  next
    case False
    then have cur: "COUNTER_START = r" using r by simp
    have lim': "py_str L (COUNTER_START + 1) = Inr txt" using lim cur by simp
    show ?thesis
      by (simp add: locked_counter f1 counter_body_data rawd d_def[symmetric] Let_def upd False
            lim' cur[symmetric])
  qed
  finally show ?thesis .
qed

lemmas text_defs = py_strip_def py_lstrip_def py_rstrip_def decode_utf8_ignore_def py_isspace_def
  py_isdigit_def py_isdigit_char_def py_int_def py_decimal_def py_str_int_def encode_ascii_def
  COUNTER_START_def is_cont_def char_of_eq_iff take_bit_eq_mod too_many_digits_def py_str_def

lemmas date_defs = tz_localize_def midnight_def BASE_DIR_def strftime_ymd_a_def
  strftime_ymd_def strftime_hms_def zpad_def str_nat.simps u_def weekday_def toordinal_def
  days_before_year_def days_before_month_def days_in_month_def is_leap_def day_abbr_def upt_rec

lemma str_300:
  "encode_ascii (py_str_int 300) = ''300''"
  "encode_ascii (py_str_int 301) = ''301''"
  by (simp_all add: py_str_int_def encode_ascii_def str_nat.simps char_of_eq_iff take_bit_eq_mod)

lemma body_300:
  "counter_body L \<lparr>h_data = ''300'', h_pos = 0\<rparr> = (\<lparr>h_data = ''301'', h_pos = 3\<rparr>, Inr 300)"
  by (simp add: counter_body_data text_defs str_nat.simps)

lemma plain_lib_sel:
  "os_nt plain_lib = False"
  "tz_fails plain_lib = (\<lambda>_. False)"
  by (simp_all add: plain_lib_def eval_lib_def)

lemma cfile_2026_01_08:
  "counter_file_for_day plain_lib day_2026_01_08 = Inr (u ''data/2026-01-08_Thu_counter.txt'')"
  by (simp add: counter_file_for_day_def day_2026_01_08_def plain_lib_sel date_defs)

text \<open>The first call of a day: the file is created, 300 is returned, 301 is left.\<close>

lemma first_call_of_day:
  assumes "counter_file_for_day L day = Inr cfile" and "files cfile = None"
  shows "get_next_occupation_id_for_day L files day = (files(cfile \<mapsto> ''301''), Inr 300)"
proof -
  have "get_next_occupation_id_for_day L files day =
          locked_file L (files(cfile \<mapsto> ''300'')) cfile ''r+b'' (counter_body L)"
    using assms by (simp add: get_next_occupation_id_for_day_def str_300 COUNTER_START_def)
  then show ?thesis
    by (simp add: locked_counter body_300)
qed

text \<open>
  Claim C1. For every day and every set of N concurrent calls of
  \<^verbatim>\<open>get_next_occupation_id_for_day\<close>, the returned ids are exactly 300, ..., 300+N-1,
  whatever the interleaving; two concurrent callers never receive the same id.

  The program creates the counter file before it takes the lock. On a day without a
  counter file, two callers can both find the file missing; the second then writes
  \<^verbatim>\<open>300\<close> over the \<^verbatim>\<open>301\<close> that the first has left, and both return 300. The theorem
  runs this schedule: caller 0 and caller 1 evaluate \<^verbatim>\<open>cfile.exists()\<close>, caller 0 runs to
  its return, then caller 1 does.
\<close>

theorem concurrent_fresh_day_duplicate_id:
  "returned (run L [0, 1, 0, 0, 0, 0, 0, 1, 1, 1, 1, 1] (callers None 2))
     = [Some (Inr 300), Some (Inr 300)]"
  by (simp add: run_def callers_def step_def returned_def str_300 body_300 file_bytes_def
        COUNTER_START_def numeral_2_eq_2)

text \<open>
  Claim C2. One call of \<^verbatim>\<open>get_next_occupation_id_for_day\<close> creates a missing counter file
  with 300, returns the stored value raised to 300, where a stored value that cannot
  be parsed counts as 300, and leaves the decimal text of the successor in the file.

  The guard of the conversion is \<^verbatim>\<open>raw.isdigit()\<close>, which holds of digit characters that
  \<^verbatim>\<open>int\<close> does not accept. A counter file holding the two bytes \<^verbatim>\<open>C2 B2\<close> (SUPERSCRIPT
  TWO) passes the guard, \<^verbatim>\<open>int(raw)\<close> raises \<^verbatim>\<open>ValueError\<close>, and the file is left as it
  was. (\<open>counter_postcondition\<close> and \<open>first_call_of_day\<close> above are the postcondition
  where the stored text is not of digit characters or is of decimal digits.)
\<close>

theorem superscript_digit_raises:
  "get_next_occupation_id_for_day plain_lib
      [u ''data/2026-01-08_Thu_counter.txt'' \<mapsto> [char_of (194::nat), char_of (178::nat)]]
      day_2026_01_08
   = ([u ''data/2026-01-08_Thu_counter.txt'' \<mapsto> [char_of (194::nat), char_of (178::nat)]],
      Inl ValueError)"
  unfolding get_next_occupation_id_for_day_def cfile_2026_01_08
  by (simp add: locked_counter counter_body_data text_defs plain_lib_sel)

subsection \<open>The codec and the appender\<close>

text \<open>
  Claim C9. An encoded occupation element carries its id twice, as the \<^verbatim>\<open>id\<close> attribute of
  the element and as the text of its \<^verbatim>\<open>occupation_id\<close> child, and the two are the same
  decimal text of the id.
\<close>

theorem occupation_id_in_two_places:
  "map_of (attrib (build_occupation_element L i tc dt dur wo ht ot cm)) (u ''id'') = Some (py_str_int i)
   \<and> map_option etext (find_child (u ''occupation_id'') (build_occupation_element L i tc dt dur wo ht ot cm))
       = Some (Some (py_str_int i))"
  by (simp add: build_occupation_element_def Let_def new_element_def find_child_def u_def)

lemma xml_to_bytes_nonempty: "xml_to_bytes L e \<noteq> []"
  by (simp add: xml_to_bytes_def xml_decl_def)

lemma append_body_data:
  "append_body L r \<lparr>h_data = d, h_pos = 0\<rparr> =
     (let root = (if d = [] then fresh_entities
                  else case parse_entities L (lstrip_padding d) of
                         Inl e \<Rightarrow> fresh_entities | Inr parsed \<Rightarrow> parsed);
          new_content = xml_to_bytes L (append_child root r)
      in (\<lparr>h_data = new_content, h_pos = length new_content\<rparr>, Inr ()))"
  by (simp add: append_body_def f_seek_end_def f_tell_def f_seek_def f_read_def f_write_def
        f_truncate_def Let_def split: sum.splits)

lemma locked_append:
  assumes "mode = ''r+b'' \<or> (mode = ''w+b'' \<and> files p = None)"
  shows "locked_file L files p mode (append_body L r) =
     (let d0 = (case files p of None \<Rightarrow> [] | Some b \<Rightarrow> b);
          d = (if os_nt L \<and> d0 = [] then '' '' else d0);
          (f, res) = append_body L r \<lparr>h_data = d, h_pos = 0\<rparr>
      in (files(p \<mapsto> h_data f), res))"
  using assms
  by (auto simp add: locked_file_def open_file_def Let_def f_seek_end_def f_tell_def
        f_write_def f_seek_def split: option.splits prod.splits)

lemma append_to_daily_all_eq:
  assumes "daily_all_file_path L day = Inr p"
  shows "append_to_daily_all L files day r =
     (let d0 = (case files p of None \<Rightarrow> [] | Some b \<Rightarrow> b);
          d = (if os_nt L \<and> d0 = [] then '' '' else d0);
          root = (if d = [] then fresh_entities
                  else case parse_entities L (lstrip_padding d) of
                         Inl e \<Rightarrow> fresh_entities | Inr parsed \<Rightarrow> parsed)
      in (files(p \<mapsto> xml_to_bytes L (append_child root r)), Inr ()))"
proof (cases "files p")
  case None
  then show ?thesis
    using assms by (simp add: append_to_daily_all_def locked_append append_body_data Let_def)
next
  case (Some b)
  then show ?thesis
    using assms by (simp add: append_to_daily_all_def locked_append append_body_data Let_def)
qed



lemma same_xml_refl: "same_xml e e"
proof (induction e)
  case (Element t a x cs z)
  then have "list_all2 same_xml cs cs"
    by (simp add: list_all2_same)
  then show ?case by simp
qed

lemma same_xml_sel:
  "same_xml a b \<Longrightarrow> tag a = tag b \<and> attrib a = attrib b \<and> list_all2 same_xml (children a) (children b)"
  by (cases a; cases b) simp

lemma tag_append_child [simp]: "tag (append_child root r) = tag root"
  and children_append_child [simp]: "children (append_child root r) = children root @ [r]"
  by (cases root; simp)+

lemma read_envelope_Some:
  "read_envelope L b = Some root \<longleftrightarrow> (fromstring L (lstrip_padding b) = Some root \<and> tag root = u ''entities'')"
  by (auto simp: read_envelope_def parse_entities_def split: option.splits if_splits)

lemma tag_fresh [simp]: "tag fresh_entities = u ''entities''"
  and children_fresh [simp]: "children fresh_entities = []"
  by (simp_all add: fresh_entities_def new_element_def)

lemma append_existing:
  assumes "daily_all_file_path L day = Inr p" "files p = Some content" "content \<noteq> []"
      and "read_envelope L content = Some root"
  shows "append_to_daily_all L files day r = (files(p \<mapsto> xml_to_bytes L (append_child root r)), Inr ())"
  using assms
  by (simp add: append_to_daily_all_eq read_envelope_def Let_def split: sum.splits)

lemma append_fresh:
  assumes "daily_all_file_path L day = Inr p" "files p = None \<or> files p = Some []"
      and "fromstring L [] = None"
  shows "append_to_daily_all L files day r = (files(p \<mapsto> xml_to_bytes L (append_child fresh_entities r)), Inr ())"
proof -
  have "lstrip_padding '' '' = []"
    by (simp add: lstrip_padding_def bytes_isspace_def)
  then show ?thesis
    using assms by (auto simp add: append_to_daily_all_eq parse_entities_def Let_def)
qed

lemma append_corrupt:
  assumes "daily_all_file_path L day = Inr p"
      and "files p = Some content" and "content \<noteq> []"
      and "read_envelope L content = None"
  shows "append_to_daily_all L files day r = (files(p \<mapsto> build_entities_xml_with_one L r), Inr ())"
  using assms
  by (simp add: append_to_daily_all_eq read_envelope_def build_entities_xml_with_one_def Let_def
        split: sum.splits)


subsection \<open>The atomic writer and the day query\<close>

lemma tmp_path_neq: "tmp_path p hex \<noteq> p"
  by (simp add: tmp_path_def u_def)

lemma trace_length: "length (atomic_write_trace files p hex content) = length content + 3"
  by (simp add: atomic_write_trace_def Let_def)

lemma trace_before_rename:
  assumes "i < length (atomic_write_trace files p hex content) - 1"
  shows "(atomic_write_trace files p hex content ! i) p = files p"
    and "q \<noteq> tmp_path p hex \<Longrightarrow> (atomic_write_trace files p hex content ! i) q = files q"
proof -
  have i: "i < length content + 2" using assms by (simp add: trace_length)
  have *: "q \<noteq> tmp_path p hex \<Longrightarrow> (atomic_write_trace files p hex content ! i) q = files q" for q
  proof (cases i)
    case 0
    then show ?thesis by (simp add: atomic_write_trace_def Let_def)
  next
    case (Suc j)
    assume q: "q \<noteq> tmp_path p hex"
    from Suc i have j: "j < Suc (length content)" by simp
    then have "atomic_write_trace files p hex content ! i = files(tmp_path p hex \<mapsto> take j content)"
      unfolding atomic_write_trace_def Let_def Suc
      by (simp add: nth_append del: upt_Suc)
    with q show ?thesis by simp
  qed
  show "(atomic_write_trace files p hex content ! i) p = files p"
    using *[of p] tmp_path_neq[of p hex] by auto
  show "q \<noteq> tmp_path p hex \<Longrightarrow> (atomic_write_trace files p hex content ! i) q = files q"
    by (rule *)
qed

lemma atomic_write_bytes_eq:
  "atomic_write_bytes files p hex content = (files(tmp_path p hex := None))(p \<mapsto> content)"
  by (simp add: atomic_write_bytes_def atomic_write_trace_def Let_def)


lemma sort_values_Nil_iff: "sort_values rs = [] \<longleftrightarrow> rs = []"
proof -
  have "insert_row r xs \<noteq> []" for r :: "'a row" and xs
    by (cases xs) simp_all
  then show ?thesis
    by (cases rs) (simp_all add: sort_values_def)
qed

text \<open>
  Claim C10. \<^verbatim>\<open>get_user_entries_for_day\<close> is total: for a folder that is absent, empty or
  holds files of any bytes it raises nothing and returns a table with the six columns
  Time, WO, Time Type, Occ Type, Hours, Comment; the table has no rows when no file
  gives one. (Every \<^verbatim>\<open>raise\<close> in the loop is a \<open>None\<close> of \<open>row_of_file\<close>, caught by the loop.)
\<close>

theorem entries_table_total:
  "columns (get_user_entries_for_day L folder day)
     = [u ''Time'', u ''WO'', u ''Time Type'', u ''Occ Type'', u ''Hours'', u ''Comment'']
   \<and> rows (get_user_entries_for_day L folder day)
     = (case folder of
          None \<Rightarrow> []
        | Some files \<Rightarrow> sort_values (List.map_filter (row_of_file L day) files))
   \<and> (rows (get_user_entries_for_day L folder day) = [])
     = (case folder of
          None \<Rightarrow> True
        | Some files \<Rightarrow> list_all (\<lambda>f. row_of_file L day f = None) files)"
proof -
  have mf: "(List.map_filter f xs = []) = list_all (\<lambda>x. f x = None) xs" for f :: "'b \<Rightarrow> 'c option" and xs
    by (induction xs) (auto simp: List.map_filter_simps split: option.splits)
  have sv: "sort_values [] = ([] :: 'a row list)"
    by (simp add: sort_values_def)
  have cols: "columns (get_user_entries_for_day L folder day)
     = [u ''Time'', u ''WO'', u ''Time Type'', u ''Occ Type'', u ''Hours'', u ''Comment'']"
    by (cases folder) (simp_all add: get_user_entries_for_day_def COLUMNS_def Let_def)
  have rws: "rows (get_user_entries_for_day L folder day)
     = (case folder of
          None \<Rightarrow> []
        | Some files \<Rightarrow> sort_values (List.map_filter (row_of_file L day) files))"
    by (cases folder) (simp_all add: get_user_entries_for_day_def Let_def sv)
  have "(rows (get_user_entries_for_day L folder day) = [])
     = (case folder of
          None \<Rightarrow> True
        | Some files \<Rightarrow> list_all (\<lambda>f. row_of_file L day f = None) files)"
    unfolding rws by (cases folder) (simp_all add: sort_values_Nil_iff mf)
  with cols rws show ?thesis by simp
qed

lemma eval_lib_sel:
  "os_nt (eval_lib d) = False"
  "tz_fails (eval_lib d) = (\<lambda>dt. False)"
  "fromstring (eval_lib d) = table_fromstring d"
  "tostring (eval_lib d) = ref_tostring"
  by (simp_all add: eval_lib_def)

lemma path_all_2026_01_08:
  "daily_all_file_path (eval_lib d) day_2026_01_08 = Inr all_2026_01_08"
  by (simp add: daily_all_file_path_def day_2026_01_08_def all_2026_01_08_def eval_lib_sel date_defs)

subsection \<open>\<^verbatim>\<open>strptime\<close> reads what \<^verbatim>\<open>fmt_dt\<close> writes\<close>

lemma str_nat_1: "n < 10 \<Longrightarrow> str_nat n = [48 + n]"
  by (simp add: str_nat.simps)

lemma str_nat_2: "10 \<le> n \<Longrightarrow> n < 100 \<Longrightarrow> str_nat n = [48 + n div 10, 48 + n mod 10]"
  by (subst str_nat.simps) (simp add: str_nat_1)

lemma str_nat_3:
  "100 \<le> n \<Longrightarrow> n < 1000 \<Longrightarrow> str_nat n = [48 + n div 100, 48 + n div 10 mod 10, 48 + n mod 10]"
  by (subst str_nat.simps) (simp add: str_nat_2 div_mult2_eq[symmetric])

lemma str_nat_4:
  "1000 \<le> n \<Longrightarrow> n < 10000 \<Longrightarrow>
   str_nat n = [48 + n div 1000, 48 + n div 100 mod 10, 48 + n div 10 mod 10, 48 + n mod 10]"
  by (subst str_nat.simps) (simp add: str_nat_3 div_mult2_eq[symmetric])

lemma zpad2: "n < 100 \<Longrightarrow> zpad 2 n = [48 + n div 10, 48 + n mod 10]"
  by (cases "n < 10") (simp_all add: zpad_def str_nat_1 str_nat_2)

lemma zpad4:
  "1000 \<le> n \<Longrightarrow> n < 10000 \<Longrightarrow>
   zpad 4 n = [48 + n div 1000, 48 + n div 100 mod 10, 48 + n div 10 mod 10, 48 + n mod 10]"
  by (simp add: zpad_def str_nat_4)

lemma digit_decimal: "d \<le> 9 \<Longrightarrow> py_decimal L (48 + d) = Some d"
  by (simp add: py_decimal_def)

lemma digit_not_space: "d \<le> 9 \<Longrightarrow> \<not> py_isspace L (48 + d)"
  by (simp add: py_isspace_def)

lemma re_dec_digit: "d \<le> 9 \<Longrightarrow> re_dec L ((48 + d) # r) = [([48 + d], r)]"
  by (simp add: re_dec_def digit_decimal)

lemmas re_defs = re_field_def re_seq_def re_alt_def re_lit_def re_range_def List.bind_def

lemma re_field_Y:
  assumes "a \<le> 9" "b \<le> 9" "c \<le> 9" "d \<le> 9"
  shows "re_field (re_Y L) (re_lit 45) ((48 + a) # (48 + b) # (48 + c) # (48 + d) # 45 # r)
           = [([48 + a, 48 + b, 48 + c, 48 + d], r)]"
  using assms by (simp add: re_Y_def re_defs re_dec_digit)

lemma re_field_m:
  assumes "1 \<le> n" "n \<le> 12"
  shows "re_field (re_m L) (re_lit 45) ((48 + n div 10) # (48 + n mod 10) # 45 # r)
           = [([48 + n div 10, 48 + n mod 10], r)]"
proof (cases "n < 10")
  case True
  with assms show ?thesis by (simp add: re_m_def re_defs)
next
  case False
  with assms have "n = 10 \<or> n = 11 \<or> n = 12" by arith
  then show ?thesis by (auto simp add: re_m_def re_defs)
qed

lemma re_field_M:
  assumes "n < 60"
  shows "re_field (re_M L) (re_lit 58) ((48 + n div 10) # (48 + n mod 10) # 58 # r)
           = [([48 + n div 10, 48 + n mod 10], r)]"
proof -
  have a: "n div 10 \<le> 5" and b: "n mod 10 \<le> 9" using assms by arith+
  have ne: "48 + n mod 10 \<noteq> 58" using b by arith
  from a b ne show ?thesis
    by (simp add: re_M_def re_defs re_dec_digit)
qed

lemma re_S_digits:
  assumes "n < 60"
  shows "re_S L [48 + n div 10, 48 + n mod 10]
           = [([48 + n div 10, 48 + n mod 10], []), ([48 + n div 10], [48 + n mod 10])]"
proof -
  have a: "n div 10 \<le> 5" and b: "n mod 10 \<le> 9" using assms by arith+
  have ne: "48 + n div 10 \<noteq> 54" using a by arith
  from a b ne show ?thesis
    by (simp add: re_S_def re_defs re_dec_digit)
qed

lemma re_field_H:
  assumes "n < 24"
  shows "re_field (re_H L) (re_lit 58) ((48 + n div 10) # (48 + n mod 10) # 58 # r)
           = [([48 + n div 10, 48 + n mod 10], r)]"
proof -
  have b: "n mod 10 \<le> 9" by arith
  have ne: "48 + n mod 10 \<noteq> 58" using b by arith
  have dm: "n div 10 * 10 + n mod 10 = n" by simp
  have "n div 10 < 3" using assms by (intro less_mult_imp_div_less) simp
  then have "n div 10 = 0 \<or> n div 10 = 1 \<or> n div 10 = 2" by linarith
  moreover have "n div 10 = 2 \<Longrightarrow> n mod 10 \<le> 3" using dm assms by linarith
  ultimately have "n div 10 = 0 \<or> n div 10 = 1 \<or> (n div 10 = 2 \<and> n mod 10 \<le> 3)"
    by blast
  then consider "n div 10 = 0" | "n div 10 = 1" | "n div 10 = 2" "n mod 10 \<le> 3"
    by auto
  then show ?thesis
  proof cases
    case 1
    with b ne show ?thesis by (simp add: re_H_def re_defs re_dec_digit re_dec_digit[of 0, simplified])
  next
    case 2
    with b ne show ?thesis by (simp add: re_H_def re_defs re_dec_digit re_dec_digit[of 1, simplified])
  next
    case 3
    with b ne show ?thesis by (simp add: re_H_def re_defs re_dec_digit re_dec_digit[of 2, simplified])
  qed
qed

lemma re_spaces_one:
  assumes "\<not> py_isspace L c"
  shows "re_spaces L (32 # c # r) = [([32], c # r)]"
  using assms by (simp add: re_spaces_def py_isspace_def)

lemma re_field_d:
  assumes "1 \<le> n" "n \<le> 31" "h \<le> 9"
  shows "re_field (re_d L) (re_spaces L) ((48 + n div 10) # (48 + n mod 10) # 32 # (48 + h) # r)
           = [([48 + n div 10, 48 + n mod 10], (48 + h) # r)]"
proof -
  have b: "n mod 10 \<le> 9" by arith
  have sp: "re_spaces L (32 # (48 + h) # r) = [([32], (48 + h) # r)]"
    using assms(3) by (simp add: re_spaces_one digit_not_space)
  have nsp: "re_spaces L ((48 + n mod 10) # 32 # (48 + h) # r) = []"
    using b by (simp add: re_spaces_def digit_not_space)
  have dm: "n div 10 * 10 + n mod 10 = n" by simp
  have "n div 10 < 4" using assms(2) by (intro less_mult_imp_div_less) simp
  then have "n div 10 = 0 \<or> n div 10 = 1 \<or> n div 10 = 2 \<or> n div 10 = 3" by linarith
  moreover have "n div 10 = 0 \<Longrightarrow> 1 \<le> n mod 10" using dm assms(1) by linarith
  moreover have "n div 10 = 3 \<Longrightarrow> n mod 10 \<le> 1" using dm assms(2) by linarith
  ultimately have "(n div 10 = 0 \<and> 1 \<le> n mod 10) \<or> n div 10 = 1 \<or> n div 10 = 2
          \<or> (n div 10 = 3 \<and> n mod 10 \<le> 1)"
    by blast
  then consider "n div 10 = 0" "1 \<le> n mod 10" | "n div 10 = 1" | "n div 10 = 2"
      | "n div 10 = 3" "n mod 10 \<le> 1"
    by auto
  then show ?thesis
  proof cases
    case 1
    with b sp nsp show ?thesis by (simp add: re_d_def re_defs re_dec_digit)
  next
    case 2
    with b sp nsp show ?thesis by (simp add: re_d_def re_defs re_dec_digit)
  next
    case 3
    with b sp nsp show ?thesis by (simp add: re_d_def re_defs re_dec_digit)
  next
    case 4
    with b sp nsp show ?thesis by (simp add: re_d_def re_defs re_dec_digit)
  qed
qed

lemma strip_digits_2: "a \<le> 9 \<Longrightarrow> b \<le> 9 \<Longrightarrow> py_strip L [48 + a, 48 + b] = [48 + a, 48 + b]"
  by (simp add: py_strip_def py_lstrip_def py_rstrip_def digit_not_space)

lemma strip_digits_4:
  "a \<le> 9 \<Longrightarrow> b \<le> 9 \<Longrightarrow> c \<le> 9 \<Longrightarrow> d \<le> 9 \<Longrightarrow>
   py_strip L [48 + a, 48 + b, 48 + c, 48 + d] = [48 + a, 48 + b, 48 + c, 48 + d]"
  by (simp add: py_strip_def py_lstrip_def py_rstrip_def digit_not_space)

lemma int_field_2: "n < 100 \<Longrightarrow> int_field L [48 + n div 10, 48 + n mod 10] = Some n"
proof -
  assume "n < 100"
  then have a: "n div 10 \<le> 9" and b: "n mod 10 \<le> 9" by arith+
  then show ?thesis
    by (simp add: int_field_def strip_digits_2 digit_decimal)
qed

lemma int_field_4:
  assumes "n < 10000"
  shows "int_field L [48 + n div 1000, 48 + n div 100 mod 10, 48 + n div 10 mod 10, 48 + n mod 10] = Some n"
proof -
  have a: "n div 1000 \<le> 9" and b: "n div 100 mod 10 \<le> 9" and c: "n div 10 mod 10 \<le> 9"
    and d: "n mod 10 \<le> 9" using assms by arith+
  have q: "n div 1000 = n div 10 div 10 div 10" "n div 100 = n div 10 div 10"
    by (simp_all add: div_mult2_eq[symmetric])
  have "10 * (10 * (10 * (n div 1000) + n div 100 mod 10) + n div 10 mod 10) + n mod 10 = n"
    unfolding q by simp
  with a b c d show ?thesis
    by (simp add: int_field_def strip_digits_4 digit_decimal)
qed

lemma days_in_month_le: "days_in_month y m \<le> 31"
  by (simp add: days_in_month_def)

lemma format_match_fmt_dt:
  assumes v: "valid_datetime dt" and y: "1000 \<le> dt_year dt"
  shows "format_match L (fmt_dt dt) =
           [((zpad 4 (dt_year dt), zpad 2 (dt_month dt), zpad 2 (dt_day dt),
              zpad 2 (dt_hour dt), zpad 2 (dt_minute dt), zpad 2 (dt_second dt)), []),
            ((zpad 4 (dt_year dt), zpad 2 (dt_month dt), zpad 2 (dt_day dt),
              zpad 2 (dt_hour dt), zpad 2 (dt_minute dt), [48 + dt_second dt div 10]),
             [48 + dt_second dt mod 10])]"
proof -
  from v have yr: "dt_year dt < 10000" and m: "1 \<le> dt_month dt" "dt_month dt \<le> 12"
    and d: "1 \<le> dt_day dt" "dt_day dt \<le> 31" and h: "dt_hour dt < 24"
    and mi: "dt_minute dt < 60" and se: "dt_second dt < 60"
    using days_in_month_le[of "dt_year dt" "dt_month dt"] by (auto simp: valid_datetime_def)
  have yd: "dt_year dt div 1000 \<le> 9" "dt_year dt div 100 mod 10 \<le> 9" "dt_year dt div 10 mod 10 \<le> 9"
      "dt_year dt mod 10 \<le> 9" using yr by arith+
  have hd: "dt_hour dt div 10 \<le> 9" using h by arith
  have s: "fmt_dt dt =
       (48 + dt_year dt div 1000) # (48 + dt_year dt div 100 mod 10) # (48 + dt_year dt div 10 mod 10)
       # (48 + dt_year dt mod 10) # 45
       # (48 + dt_month dt div 10) # (48 + dt_month dt mod 10) # 45
       # (48 + dt_day dt div 10) # (48 + dt_day dt mod 10) # 32
       # (48 + dt_hour dt div 10) # (48 + dt_hour dt mod 10) # 58
       # (48 + dt_minute dt div 10) # (48 + dt_minute dt mod 10) # 58
       # [48 + dt_second dt div 10, 48 + dt_second dt mod 10]"
    using y yr m d h mi se
    by (simp add: fmt_dt_def strftime_ymd_def strftime_hms_def zpad4 zpad2 u_def)
  have z: "zpad 2 (dt_month dt) = [48 + dt_month dt div 10, 48 + dt_month dt mod 10]"
      "zpad 2 (dt_day dt) = [48 + dt_day dt div 10, 48 + dt_day dt mod 10]"
      "zpad 2 (dt_hour dt) = [48 + dt_hour dt div 10, 48 + dt_hour dt mod 10]"
      "zpad 2 (dt_minute dt) = [48 + dt_minute dt div 10, 48 + dt_minute dt mod 10]"
      "zpad 2 (dt_second dt) = [48 + dt_second dt div 10, 48 + dt_second dt mod 10]"
    using m d h mi se by (simp_all add: zpad2)
  show ?thesis
    unfolding s format_match_def
    by (simp add: re_field_Y[OF yd] re_field_m[OF m] re_field_d[OF d hd] re_field_H[OF h]
          re_field_M[OF mi] re_S_digits[OF se] zpad4[OF y yr] z)
qed

lemma strptime_fmt_dt:
  assumes v: "valid_datetime dt" and y: "1000 \<le> dt_year dt"
  shows "strptime L (fmt_dt dt) = Some dt"
proof -
  from v have yr: "dt_year dt < 10000" and m: "dt_month dt < 100"
    and d: "dt_day dt < 100" and h: "dt_hour dt < 100"
    and mi: "dt_minute dt < 100" and se: "dt_second dt < 100"
    using days_in_month_le[of "dt_year dt" "dt_month dt"] by (auto simp: valid_datetime_def)
  have eq: "\<lparr>dt_year = dt_year dt, dt_month = dt_month dt, dt_day = dt_day dt,
             dt_hour = dt_hour dt, dt_minute = dt_minute dt, dt_second = dt_second dt\<rparr> = dt"
    by simp
  have z: "zpad 2 (dt_month dt) = [48 + dt_month dt div 10, 48 + dt_month dt mod 10]"
      "zpad 2 (dt_day dt) = [48 + dt_day dt div 10, 48 + dt_day dt mod 10]"
      "zpad 2 (dt_hour dt) = [48 + dt_hour dt div 10, 48 + dt_hour dt mod 10]"
      "zpad 2 (dt_minute dt) = [48 + dt_minute dt div 10, 48 + dt_minute dt mod 10]"
      "zpad 2 (dt_second dt) = [48 + dt_second dt div 10, 48 + dt_second dt mod 10]"
    using m d h mi se by (simp_all add: zpad2)
  show ?thesis
    unfolding strptime_def format_match_fmt_dt[OF v y]
    by (simp add: zpad4[OF y yr] z int_field_2[OF m] int_field_2[OF d] int_field_2[OF h]
          int_field_2[OF mi] int_field_2[OF se] int_field_4[OF yr] eq v)
qed

lemma strptime_2026_01_08:
  "strptime L (u ''2026-01-08 23:59:59'')
     = Some \<lparr>dt_year = 2026, dt_month = 1, dt_day = 8, dt_hour = 23, dt_minute = 59, dt_second = 59\<rparr>"
proof -
  let ?dt = "\<lparr>dt_year = 2026, dt_month = 1, dt_day = 8, dt_hour = 23, dt_minute = 59, dt_second = 59\<rparr>"
  have v: "valid_datetime ?dt"
    by (simp add: valid_datetime_def days_in_month_def)
  have f: "fmt_dt ?dt = u ''2026-01-08 23:59:59''"
    by (simp add: fmt_dt_def strftime_ymd_def strftime_hms_def zpad_def str_nat.simps u_def)
  show ?thesis
    using strptime_fmt_dt[OF v, of L] f by simp
qed

subsection \<open>The rows of the day query\<close>

lemma occupation_time_row:
  "row_of_root L day root =
     (case occupation_time L root of
        None \<Rightarrow> None
      | Some occ_dt \<Rightarrow>
          if dt_date occ_dt \<noteq> day then None
          else map_option (\<lambda>occ. row_at L occ occ_dt) (find_child (u ''occupation'') root))"
  by (simp add: row_of_root_def occupation_time_def Let_def split: option.splits sum.splits)

lemma row_of_root_None_iff:
  "(row_of_root L day root = None)
     = (case occupation_time L root of None \<Rightarrow> True | Some occ_dt \<Rightarrow> dt_date occ_dt \<noteq> day)"
  by (auto simp add: row_of_root_def occupation_time_def Let_def split: option.splits sum.splits)

lemma undecodable_iff:
  "undecodable L file =
     (case file of None \<Rightarrow> True
      | Some b \<Rightarrow> (case fromstring L (lstrip_padding b) of None \<Rightarrow> True
                    | Some root \<Rightarrow> occupation_time L root = None))"
  by (auto simp add: undecodable_def occupation_time_def tz_localize_def Let_def
        split: option.splits sum.splits)

lemma undecodable_no_row: "undecodable L file \<Longrightarrow> row_of_file L day file = None"
  by (auto simp add: undecodable_iff row_of_file_def occupation_time_row split: option.splits)

lemma undecodable_all_days: "undecodable L file = (\<forall>day. row_of_file L day file = None)"
proof
  assume "undecodable L file"
  then show "\<forall>day. row_of_file L day file = None" by (simp add: undecodable_no_row)
next
  assume a: "\<forall>day. row_of_file L day file = None"
  show "undecodable L file"
  proof (rule ccontr)
    assume n: "\<not> undecodable L file"
    then obtain b root occ_dt where f: "file = Some b"
      and p: "fromstring L (lstrip_padding b) = Some root"
      and t: "occupation_time L root = Some occ_dt"
      by (auto simp: undecodable_iff split: option.splits)
    have "\<not> (row_of_root L (dt_date occ_dt) root = None)"
      unfolding row_of_root_None_iff by (simp add: t)
    moreover from a f p have "row_of_root L (dt_date occ_dt) root = None"
      by (auto simp add: row_of_file_def split: option.splits)
    ultimately show False by blast
  qed
qed

lemma map_filter_skip:
  "f x = None \<Longrightarrow> List.map_filter f (xs @ x # ys) = List.map_filter f (xs @ ys)"
  by (simp add: List.map_filter_def)

lemma set_insert_row: "set (insert_row r xs) = insert r (set xs)"
  by (induction xs) auto

lemma set_sort_values: "set (sort_values rs) = set rs"
  unfolding sort_values_def by (induction rs) (simp_all add: set_insert_row)

lemma set_map_filter: "set (List.map_filter g xs) = {r. \<exists>x \<in> set xs. g x = Some r}"
  by (induction xs) (auto simp: List.map_filter_simps split: option.splits)

lemma rows_eq:
  "rows (get_user_entries_for_day L (Some files) day)
     = sort_values (List.map_filter (row_of_file L day) files)"
  by (simp add: get_user_entries_for_day_def Let_def sort_values_def)

lemma rows_of_table:
  "set (rows (get_user_entries_for_day L (Some files) day))
     = {r. \<exists>f \<in> set files. row_of_file L day f = Some r}"
  by (simp add: rows_eq set_sort_values set_map_filter)

text \<open>
  Claim C7, as the code has it. A document that cannot be read or parsed, whose root
  is not \<^verbatim>\<open>entities\<close>, that has no \<^verbatim>\<open>occupation\<close> element, or whose occupation has no
  timestamp that \<^verbatim>\<open>strptime\<close> and \<^verbatim>\<open>localize\<close> accept, gives no row, and the table of the
  folder is the table of the folder without it: the other documents are processed
  as before. These are the only documents that give no row on any day: a missing
  work-order code, hour type, occupation type, duration or comment does not skip
  the document.
\<close>

theorem undecodable_document_skipped:
  "(undecodable L file \<longrightarrow>
      row_of_file L day file = None
      \<and> get_user_entries_for_day L (Some (xs @ file # ys)) day
          = get_user_entries_for_day L (Some (xs @ ys)) day)
   \<and> undecodable L file = (\<forall>d. row_of_file L d file = None)"
proof (intro conjI impI)
  assume "undecodable L file"
  then show n: "row_of_file L day file = None" by (rule undecodable_no_row)
  then show "get_user_entries_for_day L (Some (xs @ file # ys)) day
          = get_user_entries_for_day L (Some (xs @ ys)) day"
    by (simp add: get_user_entries_for_day_def map_filter_skip)
next
  show "undecodable L file = (\<forall>d. row_of_file L d file = None)"
    by (rule undecodable_all_days)
qed

text \<open>
  Claim C8. A document that parses gives no row for a day exactly when it gives no
  timestamp or the calendar date of its timestamp is not the day. A document whose
  occupation timestamp is \<^verbatim>\<open>2026-01-08 23:59:59\<close> gives a row for 2026-01-08, with the
  time of day \<^verbatim>\<open>23:59:59\<close>, and for no other day; its row is in the table of every
  folder that holds the document, for that day.
\<close>

theorem day_filter:
  assumes parse: "fromstring L (lstrip_padding b) = Some root"
  shows "(row_of_file L day (Some b) = None)
           = (case occupation_time L root of None \<Rightarrow> True | Some occ_dt \<Rightarrow> dt_date occ_dt \<noteq> day)
       \<and> (tag root = u ''entities'' \<and> find_child (u ''occupation'') root = Some occ
            \<and> safe_text L (find_child (u ''occupation_occupationDate'') occ) [] = u ''2026-01-08 23:59:59''
            \<and> \<not> tz_fails L dt_2359
          \<longrightarrow> (row_of_file L day (Some b) = None) = (day \<noteq> day_2026_01_08)
             \<and> row_of_file L day_2026_01_08 (Some b) = Some (row_at L occ dt_2359)
             \<and> Time (row_at L occ dt_2359) = u ''23:59:59''
             \<and> (Some b \<in> set files \<longrightarrow>
                  row_at L occ dt_2359 \<in> set (rows (get_user_entries_for_day L (Some files) day_2026_01_08))))"
proof (intro conjI impI)
  show g: "(row_of_file L day (Some b) = None)
           = (case occupation_time L root of None \<Rightarrow> True | Some occ_dt \<Rightarrow> dt_date occ_dt \<noteq> day)"
    by (simp add: row_of_file_def parse row_of_root_None_iff)
next
  assume h: "tag root = u ''entities'' \<and> find_child (u ''occupation'') root = Some occ
            \<and> safe_text L (find_child (u ''occupation_occupationDate'') occ) [] = u ''2026-01-08 23:59:59''
            \<and> \<not> tz_fails L dt_2359"
  have ne: "u ''2026-01-08 23:59:59'' \<noteq> []" by (simp add: u_def)
  have sp: "strptime L (u ''2026-01-08 23:59:59'') = Some dt_2359"
    unfolding dt_2359_def by (rule strptime_2026_01_08)
  have t: "occupation_time L root = Some dt_2359"
    using h ne by (simp add: occupation_time_def Let_def sp tz_localize_def)
  have dd: "dt_date dt_2359 = day_2026_01_08"
    by (simp add: dt_date_def dt_2359_def day_2026_01_08_def)
  show "(row_of_file L day (Some b) = None) = (day \<noteq> day_2026_01_08)"
    using dd by (auto simp add: row_of_file_def parse row_of_root_None_iff t)
  show r: "row_of_file L day_2026_01_08 (Some b) = Some (row_at L occ dt_2359)"
    using h dd by (simp add: row_of_file_def parse occupation_time_row t)
  show "Time (row_at L occ dt_2359) = u ''23:59:59''"
    by (simp add: row_at_def Let_def strftime_hms_def dt_2359_def zpad_def str_nat.simps u_def)
  assume "Some b \<in> set files"
  with r show "row_at L occ dt_2359 \<in> set (rows (get_user_entries_for_day L (Some files) day_2026_01_08))"
    by (auto simp add: rows_of_table)
qed

subsection \<open>Decoding an encoded record\<close>

lemma build_occupation_element_eq:
  "build_occupation_element L i tc dt dur wo ht ot cm =
     Element (u ''occupation'') [(u ''id'', py_str_int i)] None
       ([Element (u ''occupation_technician'') [(u ''code'', tc)] None [] None,
         Element (u ''occupation_occupationDate'') [] (Some (fmt_dt dt)) [] None,
         Element (u ''occupation_duration'') [] (Some (str_float L (round_nd L dur 6))) [] None,
         Element (u ''occupation_WO'') [(u ''code'', wo)] None [] None,
         Element (u ''occupation_hourType'') [(u ''code'', ht)] None [] None]
        @ (if py_strip L ot \<noteq> []
           then [Element (u ''occupation_type'') [(u ''code'', py_strip L ot)] None [] None]
           else [])
        @ [Element (u ''occupation_comments'') [] None
             [Element (u ''description_description'') []
                (Some (py_strip L (join_space (py_splitlines cm)))) [] None] None,
           Element (u ''occupation_id'') [] (Some (py_str_int i)) [] None])
       None"
  by (simp add: build_occupation_element_def Let_def new_element_def)

lemma text_or_same: "text_or x [] = text_or x' [] \<Longrightarrow> text_or x d = text_or x' d"
  by (auto simp: text_or_def split: option.splits if_splits)

lemma same_xml_text: "same_xml e e' \<Longrightarrow> text_or (etext e) d = text_or (etext e') d"
  by (cases e; cases e') (auto intro: text_or_same)

lemma find_same:
  "list_all2 same_xml cs cs' \<Longrightarrow>
   rel_option same_xml (List.find (\<lambda>c. tag c = t) cs) (List.find (\<lambda>c. tag c = t) cs')"
proof (induction cs cs' rule: list_all2_induct)
  case Nil
  then show ?case by simp
next
  case (Cons x xs y ys)
  then have "tag x = tag y" using same_xml_sel[of x y] by simp
  with Cons show ?case by simp
qed

lemma find_child_same:
  "same_xml e e' \<Longrightarrow> rel_option same_xml (find_child t e) (find_child t e')"
  unfolding find_child_def using same_xml_sel[of e e'] by (auto intro: find_same)

lemma safe_text_same:
  "rel_option same_xml a b \<Longrightarrow> safe_text L a d = safe_text L b d"
  by (cases a; cases b) (simp_all add: safe_text_def same_xml_text)

lemma safe_attr_same:
  "rel_option same_xml a b \<Longrightarrow> safe_attr L a k d = safe_attr L b k d"
proof (cases a; cases b)
  fix x y assume "rel_option same_xml a b" "a = Some x" "b = Some y"
  then have "attrib x = attrib y" using same_xml_sel[of x y] by simp
  with \<open>a = Some x\<close> \<open>b = Some y\<close> show ?thesis by (simp add: safe_attr_def)
qed (simp_all add: safe_attr_def)

lemma row_at_same:
  assumes "same_xml occ occ'"
  shows "row_at L occ dt = row_at L occ' dt"
proof -
  note f = find_child_same[OF assms]
  have c: "rel_option same_xml
             (case find_child (u ''occupation_comments'') occ of None \<Rightarrow> None
              | Some ce \<Rightarrow> find_child (u ''description_description'') ce)
             (case find_child (u ''occupation_comments'') occ' of None \<Rightarrow> None
              | Some ce \<Rightarrow> find_child (u ''description_description'') ce)"
  proof (cases "find_child (u ''occupation_comments'') occ")
    case None
    with f[of "u ''occupation_comments''"]
    have "find_child (u ''occupation_comments'') occ' = None" by (simp add: option.rel_sel)
    with None show ?thesis by simp
  next
    case (Some ce)
    with f[of "u ''occupation_comments''"] obtain ce'
      where o: "find_child (u ''occupation_comments'') occ' = Some ce'" and s: "same_xml ce ce'"
      by (cases "find_child (u ''occupation_comments'') occ'") auto
    from find_child_same[OF s, of "u ''description_description''"] Some o show ?thesis by simp
  qed
  show ?thesis
    unfolding row_at_def Let_def
    using safe_attr_same[OF f[of "u ''occupation_WO''"], of L "u ''code''" "[]"]
          safe_attr_same[OF f[of "u ''occupation_hourType''"], of L "u ''code''" "[]"]
          safe_attr_same[OF f[of "u ''occupation_type''"], of L "u ''code''" "[]"]
          safe_text_same[OF f[of "u ''occupation_duration''"], of L "u ''0''"]
          safe_text_same[OF c, of L "[]"]
    by simp
qed

lemma occupation_time_same:
  assumes "same_xml r r'"
  shows "occupation_time L r = occupation_time L r'"
proof -
  have t: "tag r = tag r'" using same_xml_sel[OF assms] by simp
  note f = find_child_same[OF assms, of "u ''occupation''"]
  show ?thesis
  proof (cases "find_child (u ''occupation'') r")
    case None
    with f have "find_child (u ''occupation'') r' = None" by (simp add: option.rel_sel)
    with None t show ?thesis by (simp add: occupation_time_def)
  next
    case (Some occ)
    with f obtain occ' where o: "find_child (u ''occupation'') r' = Some occ'" and s: "same_xml occ occ'"
      by (cases "find_child (u ''occupation'') r'") auto
    have "safe_text L (find_child (u ''occupation_occupationDate'') occ) []
            = safe_text L (find_child (u ''occupation_occupationDate'') occ') []"
      by (rule safe_text_same[OF find_child_same[OF s]])
    with Some o t show ?thesis by (simp add: occupation_time_def)
  qed
qed

lemma row_of_root_same:
  assumes "same_xml r r'"
  shows "row_of_root L day r = row_of_root L day r'"
proof -
  note f = find_child_same[OF assms, of "u ''occupation''"]
  have "map_option (\<lambda>occ. row_at L occ dt) (find_child (u ''occupation'') r)
          = map_option (\<lambda>occ. row_at L occ dt) (find_child (u ''occupation'') r')" for dt
    using f by (cases "find_child (u ''occupation'') r"; cases "find_child (u ''occupation'') r'")
               (auto simp: row_at_same)
  then show ?thesis
    unfolding occupation_time_row occupation_time_same[OF assms]
    by (simp split: option.splits)
qed

lemma rstrip_prefix: "\<exists>z. x = rev (dropWhile P (rev x)) @ z"
proof -
  have "rev (takeWhile P (rev x) @ dropWhile P (rev x)) = x"
    by (simp only: takeWhile_dropWhile_id rev_rev_ident)
  then have "x = rev (dropWhile P (rev x)) @ rev (takeWhile P (rev x))"
    by (simp only: rev_append)
  then show ?thesis ..
qed

lemma py_strip_idem: "py_strip L (py_strip L s) = py_strip L s"
proof -
  define P where "P = py_isspace L"
  define x where "x = dropWhile P s"
  define y where "y = rev (dropWhile P (rev x))"
  obtain z where xz: "x = y @ z" using rstrip_prefix[of x P] by (auto simp: y_def)
  have hx: "x \<noteq> [] \<Longrightarrow> \<not> P (hd x)" unfolding x_def by (rule hd_dropWhile)
  have l: "dropWhile P y = y"
  proof (cases y)
    case Nil then show ?thesis by simp
  next
    case (Cons a w)
    with xz have "hd x = a" "x \<noteq> []" by simp_all
    with hx have "\<not> P a" by simp
    with Cons show ?thesis by simp
  qed
  have r: "rev (dropWhile P (rev y)) = y" by (simp add: y_def)
  show ?thesis
    unfolding py_strip_def py_lstrip_def py_rstrip_def P_def[symmetric] x_def[symmetric]
      y_def[symmetric] l r ..
qed

lemma strip_keeps:
  "s \<noteq> [] \<Longrightarrow> \<not> py_isspace L (hd s) \<Longrightarrow> \<not> py_isspace L (last s) \<Longrightarrow> py_strip L s = s"
proof -
  assume a: "s \<noteq> []" and h: "\<not> py_isspace L (hd s)" and l: "\<not> py_isspace L (last s)"
  from a h have 1: "py_lstrip L s = s"
    by (cases s) (simp_all add: py_lstrip_def)
  from a l have "dropWhile (py_isspace L) (rev s) = rev s"
    by (cases "rev s") (simp_all add: last_rev)
  then show ?thesis by (simp add: py_strip_def py_rstrip_def 1)
qed

lemma fmt_dt_strip:
  assumes v: "valid_datetime dt" and y: "1000 \<le> dt_year dt"
  shows "fmt_dt dt \<noteq> []" "py_strip L (fmt_dt dt) = fmt_dt dt"
proof -
  from v have yr: "dt_year dt < 10000" and se: "dt_second dt < 100"
    by (auto simp: valid_datetime_def)
  have f: "fmt_dt dt = (48 + dt_year dt div 1000) # tl (fmt_dt dt)"
    by (simp add: fmt_dt_def strftime_ymd_def zpad4[OF y yr])
  have e: "fmt_dt dt = butlast (fmt_dt dt) @ [48 + dt_second dt mod 10]"
    by (simp add: fmt_dt_def strftime_ymd_def strftime_hms_def zpad2[OF se] butlast_append u_def)
  from f show ne: "fmt_dt dt \<noteq> []" by (metis list.distinct(1))
  from f have h: "hd (fmt_dt dt) = 48 + dt_year dt div 1000" by (metis list.sel(1))
  from e have l: "last (fmt_dt dt) = 48 + dt_second dt mod 10" by (metis last_snoc)
  have "dt_year dt div 1000 \<le> 9" using yr by simp
  then have hs: "\<not> py_isspace L (hd (fmt_dt dt))" unfolding h by (rule digit_not_space)
  have "dt_second dt mod 10 \<le> 9" by simp
  then have ls: "\<not> py_isspace L (last (fmt_dt dt))" unfolding l by (rule digit_not_space)
  show "py_strip L (fmt_dt dt) = fmt_dt dt"
    by (rule strip_keeps[OF ne hs ls])
qed

lemma text_or_Some: "text_or (Some s) [] = s"
  by (simp add: text_or_def)

lemma row_of_built:
  assumes v: "valid_datetime dt" and y: "1000 \<le> dt_year dt" and z: "\<not> tz_fails L dt"
      and fl: "float_reads_back L (round_nd L dur 6)"
  shows "row_of_root L (dt_date dt)
           (append_child fresh_entities (build_occupation_element L i tc dt dur wo ht ot cm))
         = Some \<lparr>Time = strftime_hms dt, WO = py_strip L wo, Time_Type = py_strip L ht,
                  Occ_Type = py_strip L ot, Hours = round_nd L (round_nd L dur 6) 3,
                  Comment = py_strip L (join_space (py_splitlines cm))\<rparr>"
proof -
  define occ where "occ = build_occupation_element L i tc dt dur wo ht ot cm"
  define desc where "desc = Element (u ''description_description'') []
                (Some (py_strip L (join_space (py_splitlines cm)))) [] None"
  have tg: "tag occ = u ''occupation''"
    by (simp add: occ_def build_occupation_element_eq)
  have fo: "find_child (u ''occupation'') (append_child fresh_entities occ) = Some occ"
    by (simp add: find_child_def children_fresh tg)
  have fc: "find_child (u ''occupation_occupationDate'') occ
              = Some (Element (u ''occupation_occupationDate'') [] (Some (fmt_dt dt)) [] None)"
    "find_child (u ''occupation_duration'') occ
       = Some (Element (u ''occupation_duration'') [] (Some (str_float L (round_nd L dur 6))) [] None)"
    "find_child (u ''occupation_WO'') occ
       = Some (Element (u ''occupation_WO'') [(u ''code'', wo)] None [] None)"
    "find_child (u ''occupation_hourType'') occ
       = Some (Element (u ''occupation_hourType'') [(u ''code'', ht)] None [] None)"
    "find_child (u ''occupation_type'') occ
       = (if py_strip L ot \<noteq> []
          then Some (Element (u ''occupation_type'') [(u ''code'', py_strip L ot)] None [] None)
          else None)"
    "find_child (u ''occupation_comments'') occ
       = Some (Element (u ''occupation_comments'') [] None [desc] None)"
    by (simp_all add: occ_def desc_def build_occupation_element_eq find_child_def u_def)
  have fd: "find_child (u ''description_description'')
              (Element (u ''occupation_comments'') [] None [desc] None) = Some desc"
    by (simp add: find_child_def desc_def)
  note fs = fmt_dt_strip(1)[OF v y] fmt_dt_strip(2)[OF v y, of L]
  have dtxt: "safe_text L (find_child (u ''occupation_occupationDate'') occ) [] = fmt_dt dt"
    using fs by (simp add: fc safe_text_def text_or_Some)
  have ot: "occupation_time L (append_child fresh_entities occ) = Some dt"
    using fs(1) z
    by (simp add: occupation_time_def tag_fresh fo dtxt strptime_fmt_dt[OF v y] tz_localize_def)
  from fl have f1: "str_float L (round_nd L dur 6) \<noteq> []"
    and f2: "float_of_str L (py_strip L (str_float L (round_nd L dur 6))) = Some (round_nd L dur 6)"
    by (simp_all add: float_reads_back_def)
  have hours: "safe_float L (safe_text L
                   (Some (Element (u ''occupation_duration'') []
                            (Some (str_float L (round_nd L dur 6))) [] None)) (u ''0''))
                 = round_nd L dur 6"
    using f1 by (simp add: safe_text_def text_or_def safe_float_def f2)
  have cmt: "safe_text L (Some desc) [] = py_strip L (join_space (py_splitlines cm))"
    by (simp add: safe_text_def desc_def text_or_Some py_strip_idem)
  have e: "py_strip L [] = []"
    by (simp add: py_strip_def py_lstrip_def py_rstrip_def)
  have ra: "row_at L occ dt
      = \<lparr>Time = strftime_hms dt, WO = py_strip L wo, Time_Type = py_strip L ht,
           Occ_Type = py_strip L ot, Hours = round_nd L (round_nd L dur 6) 3,
           Comment = py_strip L (join_space (py_splitlines cm))\<rparr>"
    unfolding row_at_def Let_def fc
    by (simp add: hours fd cmt safe_attr_def text_or_Some py_strip_idem)
  show ?thesis
    unfolding occ_def[symmetric]
    by (simp add: occupation_time_row ot fo ra)
qed

text \<open>
  Claim C6, as the code has it. For a record with a valid timestamp of a year from
  1000 on, whose encoded single-record document the XML library reads back and
  whose duration, rounded to six places, the float library reads back from its
  text: the row decoded from the encoded document, for the day of the timestamp,
  has the time of day of the timestamp; the work-order code, the hour type and the
  occupation type without surrounding whitespace (the empty text for an occupation
  type that is blank, whose element is absent); the comment with its line breaks
  turned into spaces and without surrounding whitespace; and the duration rounded
  to six and then to three decimal places.
\<close>

lemma decode_encode:
  assumes v: "valid_datetime dt" and y: "1000 \<le> dt_year dt" and z: "\<not> tz_fails L dt"
      and rb: "reads_back L (append_child fresh_entities
                               (build_occupation_element L i tc dt dur wo ht ot cm)) root'"
      and fl: "float_reads_back L (round_nd L dur 6)"
  shows "row_of_file L (dt_date dt)
           (Some (build_entities_xml_with_one L (build_occupation_element L i tc dt dur wo ht ot cm)))
         = Some \<lparr>Time = strftime_hms dt, WO = py_strip L wo, Time_Type = py_strip L ht,
                  Occ_Type = py_strip L ot, Hours = round_nd L (round_nd L dur 6) 3,
                  Comment = py_strip L (join_space (py_splitlines cm))\<rparr>"
proof -
  let ?doc = "append_child fresh_entities (build_occupation_element L i tc dt dur wo ht ot cm)"
  from rb have p: "fromstring L (lstrip_padding (xml_to_bytes L ?doc)) = Some root'"
    and s: "same_xml root' ?doc"
    by (simp_all add: reads_back_def)
  have "row_of_file L (dt_date dt) (Some (build_entities_xml_with_one L
            (build_occupation_element L i tc dt dur wo ht ot cm)))
        = row_of_root L (dt_date dt) root'"
    by (simp add: row_of_file_def build_entities_xml_with_one_def p)
  also have "\<dots> = row_of_root L (dt_date dt) ?doc"
    by (rule row_of_root_same[OF s])
  finally show ?thesis
    by (simp add: row_of_built[OF v y z fl])
qed

section \<open>Evaluations at concrete inputs\<close>

subsection \<open>The reference serialiser and the table parser\<close>

lemma xml_char_ok_ascii: "32 \<le> n \<Longrightarrow> n < 256 \<Longrightarrow> xml_char_ok (char_of (n::nat))"
  by (simp add: xml_char_ok_def Let_def)

lemma utf8_ascii_ok:
  "list_all (\<lambda>n. 32 \<le> n \<and> n < 128) s \<Longrightarrow> list_all xml_char_ok (map char_of (concat (map utf8_char s)))"
  by (induction s) (simp_all add: utf8_char_def xml_char_ok_ascii)

lemma xml_decl_ok: "list_all xml_char_ok xml_decl"
  by (simp add: xml_decl_def xml_char_ok_def)

lemma utf8_ctrl:
  "(8::nat) \<in> set s \<Longrightarrow> \<not> list_all xml_char_ok (map char_of (concat (map utf8_char s)))"
  by (induction s) (auto simp: utf8_char_def xml_char_ok_def Let_def)

lemma char_nul: "char_of (0::nat) = CHR 0x00"
  by (simp add: char_of_eq_iff)

lemma lstrip_padding_xml: "lstrip_padding (xml_decl @ b) = xml_decl @ b"
  by (simp add: lstrip_padding_def xml_decl_def bytes_isspace_def char_nul)

lemma read_envelope_first:
  assumes "list_all (\<lambda>n. 32 \<le> n \<and> n < 128) (serialize_xml t)" "reparsed t = t"
      and "tag t = u ''entities''"
  shows "read_envelope (eval_lib (t # ds)) (xml_to_bytes (eval_lib (t # ds)) t) = Some t"
  using assms utf8_ascii_ok[of "serialize_xml t"]
  by (simp add: read_envelope_def parse_entities_def xml_to_bytes_def eval_lib_sel
        lstrip_padding_xml table_fromstring_def xml_decl_ok ref_tostring_def)

lemma read_envelope_ctrl:
  assumes "(8::nat) \<in> set (serialize_xml t)"
  shows "read_envelope (eval_lib ds) (xml_to_bytes (eval_lib ds) t) = None"
  using utf8_ctrl[OF assms]
  by (simp add: read_envelope_def parse_entities_def xml_to_bytes_def eval_lib_sel
        lstrip_padding_xml table_fromstring_def ref_tostring_def)

lemma table_no_decl:
  "take 2 b \<noteq> ''<?'' \<Longrightarrow> table_fromstring docs b = None"
proof -
  assume h: "take 2 b \<noteq> ''<?''"
  have "\<And>t. xml_decl @ ref_tostring t \<noteq> b"
  proof
    fix t assume "xml_decl @ ref_tostring t = b"
    then have "take 2 b = ''<?''" by (auto simp: xml_decl_def)
    with h show False by simp
  qed
  then have "List.find (\<lambda>t. xml_decl @ ref_tostring t = b) docs = None"
    by (simp add: find_None_iff)
  then show ?thesis by (simp add: table_fromstring_def)
qed

lemma fromstring_first:
  assumes "list_all (\<lambda>n. 32 \<le> n \<and> n < 128) (serialize_xml t)" "reparsed t = t"
  shows "fromstring (eval_lib (t # ds)) (lstrip_padding (xml_to_bytes (eval_lib (t # ds)) t)) = Some t"
  using assms utf8_ascii_ok[of "serialize_xml t"]
  by (simp add: xml_to_bytes_def eval_lib_sel lstrip_padding_xml table_fromstring_def xml_decl_ok
        ref_tostring_def)

lemma fromstring_ctrl:
  assumes "(8::nat) \<in> set (serialize_xml t)"
  shows "fromstring (eval_lib ds) (lstrip_padding (xml_to_bytes (eval_lib ds) t)) = None"
  using utf8_ctrl[OF assms]
  by (simp add: xml_to_bytes_def eval_lib_sel lstrip_padding_xml table_fromstring_def ref_tostring_def)

lemma serialize_text:
  "s \<noteq> [] \<Longrightarrow> set (escape_cdata s) \<subseteq> set (serialize_xml (Element t a (Some s) cs z))"
  by (auto simp: text_or_def)

lemma serialize_child:
  "c \<in> set cs \<Longrightarrow> set (serialize_xml c) \<subseteq> set (serialize_xml (Element t a x cs z))"
  by auto

lemma serialize_appended: "set (serialize_xml r) \<subseteq> set (serialize_xml (append_child root r))"
  by (cases root) auto

lemma build_lib:
  "build_occupation_element (eval_lib ds) i tc dt dur wo ht ot cm
     = build_occupation_element plain_lib i tc dt dur wo ht ot cm"
proof -
  have ps: "py_isspace (eval_lib ds) = py_isspace plain_lib"
    by (simp add: fun_eq_iff py_isspace_def plain_lib_def eval_lib_def)
  have "py_strip (eval_lib ds) s = py_strip plain_lib s" for s
    by (simp add: py_strip_def py_lstrip_def py_rstrip_def ps)
  then have "py_strip (eval_lib ds) = py_strip plain_lib"
    by (rule ext)
  then show ?thesis
    by (simp add: build_occupation_element_eq plain_lib_def eval_lib_def)
qed

lemma plain_strip_ascii:
  "s \<noteq> [] \<Longrightarrow> 32 < hd s \<Longrightarrow> hd s < 128 \<Longrightarrow> 32 < last s \<Longrightarrow> last s < 128
   \<Longrightarrow> py_strip (eval_lib ds) s = s"
proof -
  assume a: "s \<noteq> []" "32 < hd s" "hd s < 128" "32 < last s" "last s < 128"
  then have h: "\<not> py_isspace (eval_lib ds) (hd s)" and l: "\<not> py_isspace (eval_lib ds) (last s)"
    by (simp_all add: py_isspace_def)
  from a h have 1: "py_lstrip (eval_lib ds) s = s"
    by (cases s) (simp_all add: py_lstrip_def)
  from a l have "dropWhile (py_isspace (eval_lib ds)) (rev s) = rev s"
    by (cases "rev s") (simp_all add: last_rev)
  then show ?thesis by (simp add: py_strip_def py_rstrip_def 1)
qed

subsection \<open>The sample documents\<close>

lemma doc1_ascii: "list_all (\<lambda>n. 32 \<le> n \<and> n < 128) (serialize_xml doc1)"
  by (simp add: doc1_def rec1_def fresh_entities_def new_element_def u_def TIMEZONE_def
        ser_attrib_def escape_attrib_def escape_cdata_def text_or_def)

lemma doc1_reparsed: "reparsed doc1 = doc1" "tag doc1 = u ''entities''" "children doc1 = [rec1]"
  by (simp_all add: doc1_def rec1_def fresh_entities_def new_element_def)

lemma w_env1: "read_envelope lib12 (xml_to_bytes lib12 doc1) = Some doc1"
  unfolding lib12_def by (rule read_envelope_first[OF doc1_ascii doc1_reparsed(1,2)])

lemma w_empty: "fromstring (eval_lib ds) [] = None"
  by (simp add: eval_lib_sel table_no_decl)

lemma w_garbage: "read_envelope (eval_lib ds) ''<entities><occupation'' = None"
  by (simp add: read_envelope_def parse_entities_def lstrip_padding_def bytes_isspace_def char_nul
        eval_lib_sel table_no_decl)

lemma garbage_undecodable: "undecodable (eval_lib ds) (Some ''<entities><occupation'')"
  by (simp add: undecodable_def lstrip_padding_def bytes_isspace_def char_nul eval_lib_sel
        table_no_decl)

lemma fmt_dt_2359: "fmt_dt dt_2359 = u ''2026-01-08 23:59:59''"
  by (simp add: dt_2359_def fmt_dt_def strftime_ymd_def strftime_hms_def zpad_def str_nat.simps u_def)

lemma replicate_6: "replicate 6 x = [x, x, x, x, x, x]"
  by (simp add: numeral_eq_Suc)

lemma str_nat_333333: "str_nat 333333 = [51, 51, 51, 51, 51, 51]"
  by (simp add: str_nat.simps)

lemma fx_str_third: "fx_str 333333 = u ''0.333333''"
  by (simp add: fx_str_def fx_digits_def zpad_def str_nat_333333 str_nat_1 u_def)

lemma occ_2359_eq:
  "occ_2359 =
     Element (u ''occupation'') [(u ''id'', u ''300'')] None
       [Element (u ''occupation_technician'') [(u ''code'', u ''JOE'')] None [] None,
        Element (u ''occupation_occupationDate'') [] (Some (u ''2026-01-08 23:59:59'')) [] None,
        Element (u ''occupation_duration'') [] (Some (u ''0.333333'')) [] None,
        Element (u ''occupation_WO'') [(u ''code'', u ''WO-7'')] None [] None,
        Element (u ''occupation_hourType'') [(u ''code'', u ''NORMAL'')] None [] None,
        Element (u ''occupation_comments'') [] None
          [Element (u ''description_description'') [] (Some (u ''done'')) [] None] None,
        Element (u ''occupation_id'') [] (Some (u ''300'')) [] None]
       None"
proof -
  have i: "py_str_int 300 = u ''300''"
    by (simp add: py_str_int_def str_nat.simps u_def)
  have d: "str_float plain_lib (round_nd plain_lib 333333 6) = u ''0.333333''"
    by (simp add: plain_lib_def eval_lib_def fx_round_def fx_str_third)
  have o: "py_strip plain_lib [] = []"
    by (simp add: py_strip_def py_lstrip_def py_rstrip_def)
  have c: "py_strip plain_lib (join_space (py_splitlines (u ''done''))) = u ''done''"
    by (simp add: py_splitlines_def is_linebreak_def u_def py_strip_def py_lstrip_def py_rstrip_def
          py_isspace_def)
  show ?thesis
    unfolding occ_2359_def build_occupation_element_eq i d o c fmt_dt_2359 by simp
qed

lemma doc_2359_facts:
  "reparsed doc_2359 = doc_2359" "tag doc_2359 = u ''entities''"
  "find_child (u ''occupation'') doc_2359 = Some occ_2359"
  by (simp_all add: doc_2359_def fresh_entities_def new_element_def find_child_def occ_2359_eq u_def)

lemma doc_2359_ascii: "list_all (\<lambda>n. 32 \<le> n \<and> n < 128) (serialize_xml doc_2359)"
  by (simp add: doc_2359_def occ_2359_eq fresh_entities_def new_element_def u_def TIMEZONE_def
        ser_attrib_def escape_attrib_def escape_cdata_def text_or_def)

lemma date_text_2359:
  "safe_text (eval_lib ds) (find_child (u ''occupation_occupationDate'') occ_2359) []
     = u ''2026-01-08 23:59:59''"
proof -
  have "py_strip (eval_lib ds) (u ''2026-01-08 23:59:59'') = u ''2026-01-08 23:59:59''"
    by (rule plain_strip_ascii) (simp_all add: u_def)
  moreover have "find_child (u ''occupation_occupationDate'') occ_2359
      = Some (Element (u ''occupation_occupationDate'') [] (Some (u ''2026-01-08 23:59:59'')) [] None)"
    by (simp add: occ_2359_eq find_child_def u_def)
  moreover have "u ''2026-01-08 23:59:59'' \<noteq> []" by (simp add: u_def)
  ultimately show ?thesis by (simp add: safe_text_def text_or_def)
qed

lemma valid_2359: "valid_datetime dt_2359" "1000 \<le> dt_year dt_2359"
  "dt_date dt_2359 = day_2026_01_08" "strftime_hms dt_2359 = u ''23:59:59''"
  by (simp_all add: valid_datetime_def days_in_month_def dt_2359_def dt_date_def
        day_2026_01_08_def strftime_hms_def zpad2 u_def)

lemma float_third: "float_reads_back (eval_lib ds) (round_nd (eval_lib ds) 333333 6)"
  "round_nd (eval_lib ds) (round_nd (eval_lib ds) 333333 6) 3 = 333000"
proof -
  have s: "py_strip (eval_lib ds) (u ''0.333333'') = u ''0.333333''"
    by (rule plain_strip_ascii) (simp_all add: u_def)
  have f: "fx_of_str (u ''0.333333'') = Some 333333"
    by (simp add: fx_of_str_def ascii_digits_def nat_of_digits_def u_def)
  have n: "u ''0.333333'' \<noteq> []" by (simp add: u_def)
  show "float_reads_back (eval_lib ds) (round_nd (eval_lib ds) 333333 6)"
    using n by (simp add: float_reads_back_def eval_lib_def fx_round_def fx_str_third s[unfolded eval_lib_def] f)
  show "round_nd (eval_lib ds) (round_nd (eval_lib ds) 333333 6) 3 = 333000"
    by (simp add: eval_lib_def fx_round_def)
qed

lemma fields_2359:
  "py_strip (eval_lib ds) (u ''WO-7'') = u ''WO-7''"
  "py_strip (eval_lib ds) (u ''NORMAL'') = u ''NORMAL''"
  "py_strip (eval_lib ds) [] = []"
  "py_strip (eval_lib ds) (join_space (py_splitlines (u ''done''))) = u ''done''"
proof -
  show "py_strip (eval_lib ds) (u ''WO-7'') = u ''WO-7''"
    by (rule plain_strip_ascii) (simp_all add: u_def)
  show "py_strip (eval_lib ds) (u ''NORMAL'') = u ''NORMAL''"
    by (rule plain_strip_ascii) (simp_all add: u_def)
  show "py_strip (eval_lib ds) [] = []"
    by (simp add: py_strip_def py_lstrip_def py_rstrip_def)
  have "join_space (py_splitlines (u ''done'')) = u ''done''"
    by (simp add: py_splitlines_def is_linebreak_def u_def)
  moreover have "py_strip (eval_lib ds) (u ''done'') = u ''done''"
    by (rule plain_strip_ascii) (simp_all add: u_def)
  ultimately show "py_strip (eval_lib ds) (join_space (py_splitlines (u ''done''))) = u ''done''"
    by simp
qed

lemma doc_date_only_facts:
  "reparsed doc_date_only = doc_date_only" "tag doc_date_only = u ''entities''"
  "find_child (u ''occupation'') doc_date_only = Some occ_date_only"
  "list_all (\<lambda>n. 32 \<le> n \<and> n < 128) (serialize_xml doc_date_only)"
  by (simp_all add: doc_date_only_def occ_date_only_def fresh_entities_def new_element_def
        find_child_def u_def TIMEZONE_def ser_attrib_def escape_attrib_def escape_cdata_def text_or_def)

lemma strptime_10: "strptime L (u ''2026-01-08 10:00:00'')
     = Some \<lparr>dt_year = 2026, dt_month = 1, dt_day = 8, dt_hour = 10, dt_minute = 0, dt_second = 0\<rparr>"
proof -
  let ?dt = "\<lparr>dt_year = 2026, dt_month = 1, dt_day = 8, dt_hour = 10, dt_minute = 0, dt_second = 0\<rparr>"
  have v: "valid_datetime ?dt"
    by (simp add: valid_datetime_def days_in_month_def)
  have f: "fmt_dt ?dt = u ''2026-01-08 10:00:00''"
    by (simp add: fmt_dt_def strftime_ymd_def strftime_hms_def zpad4 zpad2 u_def)
  show ?thesis
    using strptime_fmt_dt[OF v, of L] f by simp
qed

lemma rec_ctrl_ctrl: "(8::nat) \<in> set (serialize_xml rec_ctrl)"
proof -
  let ?d = "Element (u ''description_description'') [] (Some [97, 8, 98]) [] None"
  let ?c = "Element (u ''occupation_comments'') [] None [?d] None"
  have cm: "py_strip plain_lib (join_space (py_splitlines [97, 8, 98])) = [97, 8, 98]"
    by (simp add: py_splitlines_def is_linebreak_def py_strip_def py_lstrip_def py_rstrip_def
          py_isspace_def)
  have "(8::nat) \<in> set (escape_cdata [97, 8, 98])"
    by (simp add: escape_cdata_def)
  then have "(8::nat) \<in> set (serialize_xml ?d)"
    using serialize_text[of "[97, 8, 98]" "u ''description_description''" "[]" "[]" None] by auto
  then have "(8::nat) \<in> set (serialize_xml ?c)"
    using serialize_child[of ?d "[?d]" "u ''occupation_comments''" "[]" None None] by auto
  moreover have "?c \<in> set (children rec_ctrl)"
    by (simp add: rec_ctrl_def build_occupation_element_eq cm)
  ultimately show ?thesis
    using serialize_child[of ?c "children rec_ctrl" "tag rec_ctrl" "attrib rec_ctrl" "etext rec_ctrl" "etail rec_ctrl"]
    by auto
qed

lemma doc_ctrl_ctrl: "(8::nat) \<in> set (serialize_xml doc_ctrl)"
proof -
  have "rec_ctrl \<in> set (children doc_ctrl)"
    by (simp add: doc_ctrl_def children_append_child)
  then show ?thesis
    using serialize_child[of rec_ctrl "children doc_ctrl" "tag doc_ctrl" "attrib doc_ctrl" "etext doc_ctrl" "etail doc_ctrl"]
          rec_ctrl_ctrl
    by auto
qed

subsection \<open>The theorems at the sample documents\<close>




theorem decode_encode_witness:
  "row_of_file lib_2359 day_2026_01_08 (Some (build_entities_xml_with_one lib_2359 occ_2359))
     = Some \<lparr>Time = u ''23:59:59'', WO = u ''WO-7'', Time_Type = u ''NORMAL'', Occ_Type = [],
              Hours = 333000, Comment = u ''done''\<rparr>"
proof -
  have o: "build_occupation_element lib_2359 300 (u ''JOE'') dt_2359 333333 (u ''WO-7'')
             (u ''NORMAL'') [] (u ''done'') = occ_2359"
    by (simp add: lib_2359_def build_lib occ_2359_def)
  have z: "\<not> tz_fails lib_2359 dt_2359"
    by (simp add: lib_2359_def eval_lib_sel)
  have p: "fromstring lib_2359 (lstrip_padding (xml_to_bytes lib_2359 doc_2359)) = Some doc_2359"
    unfolding lib_2359_def by (rule fromstring_first[OF doc_2359_ascii doc_2359_facts(1)])
  have rb: "reads_back lib_2359
              (append_child fresh_entities
                 (build_occupation_element lib_2359 300 (u ''JOE'') dt_2359 333333 (u ''WO-7'')
                    (u ''NORMAL'') [] (u ''done''))) doc_2359"
    unfolding o using p by (simp add: reads_back_def doc_2359_def[symmetric] same_xml_refl)
  have fl: "float_reads_back lib_2359 (round_nd lib_2359 333333 6)"
    unfolding lib_2359_def by (rule float_third)
  note T = decode_encode[OF valid_2359(1,2) z rb fl]
  from T show ?thesis
    unfolding o valid_2359(3,4)
    by (simp add: fields_2359[of "[doc_2359]", folded lib_2359_def]
          float_third(2)[of "[doc_2359]", folded lib_2359_def])
qed

theorem undecodable_document_skipped_witness:
  "undecodable lib_2359 (Some ''<entities><occupation'')
   \<and> row_of_file lib_2359 day_2026_01_08 (Some ''<entities><occupation'') = None
   \<and> get_user_entries_for_day lib_2359
         (Some [Some ''<entities><occupation'', Some (xml_to_bytes lib_2359 doc_2359)]) day_2026_01_08
       = get_user_entries_for_day lib_2359 (Some [Some (xml_to_bytes lib_2359 doc_2359)]) day_2026_01_08"
  using undecodable_document_skipped[of lib_2359 "Some ''<entities><occupation''" day_2026_01_08
          "[]" "[Some (xml_to_bytes lib_2359 doc_2359)]"]
        garbage_undecodable[of "[doc_2359]"]
  by (simp add: lib_2359_def)

theorem day_filter_witness:
  "row_of_file lib_2359 day_2026_01_08 (Some (xml_to_bytes lib_2359 doc_2359))
     = Some (row_at lib_2359 occ_2359 dt_2359)
   \<and> row_of_file lib_2359 \<lparr>d_year = 2026, d_month = 1, d_day = 9\<rparr>
         (Some (xml_to_bytes lib_2359 doc_2359)) = None
   \<and> Time (row_at lib_2359 occ_2359 dt_2359) = u ''23:59:59''
   \<and> row_at lib_2359 occ_2359 dt_2359
       \<in> set (rows (get_user_entries_for_day lib_2359
                      (Some [Some (xml_to_bytes lib_2359 doc_2359)]) day_2026_01_08))"
proof -
  let ?b = "xml_to_bytes lib_2359 doc_2359"
  have p: "fromstring lib_2359 (lstrip_padding ?b) = Some doc_2359"
    unfolding lib_2359_def by (rule fromstring_first[OF doc_2359_ascii doc_2359_facts(1)])
  have t: "safe_text lib_2359 (find_child (u ''occupation_occupationDate'') occ_2359) []
             = u ''2026-01-08 23:59:59''"
    unfolding lib_2359_def by (rule date_text_2359)
  have z: "\<not> tz_fails lib_2359 dt_2359"
    by (simp add: lib_2359_def eval_lib_sel)
  have n: "\<lparr>d_year = 2026, d_month = 1, d_day = 9\<rparr> \<noteq> day_2026_01_08"
    by (simp add: day_2026_01_08_def)
  note T = day_filter[OF p, of _ occ_2359 "[Some ?b]"]
  from T[of "\<lparr>d_year = 2026, d_month = 1, d_day = 9\<rparr>"] t z n doc_2359_facts(2,3)
  have a: "row_of_file lib_2359 \<lparr>d_year = 2026, d_month = 1, d_day = 9\<rparr> (Some ?b) = None"
    by simp
  from T[of day_2026_01_08] t z doc_2359_facts(2,3)
  have b: "row_of_file lib_2359 day_2026_01_08 (Some ?b) = Some (row_at lib_2359 occ_2359 dt_2359)
     \<and> Time (row_at lib_2359 occ_2359 dt_2359) = u ''23:59:59''
     \<and> row_at lib_2359 occ_2359 dt_2359
       \<in> set (rows (get_user_entries_for_day lib_2359 (Some [Some ?b]) day_2026_01_08))"
    by simp
  from a b show ?thesis by simp
qed


text \<open>
  Claim C6, as the specification has it, fails at a record with the duration 0.333333
  hours (20 minutes, rounded to six places): the row decoded from its encoded
  document has the duration 0.333, not the duration of the record. And it fails at
  a record whose comment holds the control character U+0008: the encoded document
  does not parse, and the decode gives no row at all.
\<close>

theorem duration_rounded_to_three_places:
  "map_option Hours
     (row_of_file lib_2359 day_2026_01_08
        (Some (build_entities_xml_with_one lib_2359
                 (build_occupation_element lib_2359 300 (u ''JOE'') dt_2359 333333 (u ''WO-7'')
                    (u ''NORMAL'') [] (u ''done'')))))
     = Some 333000
   \<and> row_of_file lib_2359 day_2026_01_08
        (Some (build_entities_xml_with_one lib_2359
                 (build_occupation_element lib_2359 301 (u ''JOE'')
                    \<lparr>dt_year = 2026, dt_month = 1, dt_day = 8, dt_hour = 10, dt_minute = 0,
                       dt_second = 0\<rparr>
                    1000000 (u ''WO-7'') (u ''NORMAL'') [] [97, 8, 98])))
     = None"
proof -
  have o: "build_occupation_element lib_2359 300 (u ''JOE'') dt_2359 333333 (u ''WO-7'')
             (u ''NORMAL'') [] (u ''done'') = occ_2359"
    by (simp add: lib_2359_def build_lib occ_2359_def)
  have z: "\<not> tz_fails lib_2359 dt_2359"
    by (simp add: lib_2359_def eval_lib_sel)
  have p: "fromstring lib_2359 (lstrip_padding (xml_to_bytes lib_2359 doc_2359)) = Some doc_2359"
    unfolding lib_2359_def by (rule fromstring_first[OF doc_2359_ascii doc_2359_facts(1)])
  have fl: "float_reads_back lib_2359 (round_nd lib_2359 333333 6)"
    unfolding lib_2359_def by (rule float_third)
  have "row_of_file lib_2359 day_2026_01_08 (Some (build_entities_xml_with_one lib_2359 occ_2359))
          = row_of_root lib_2359 (dt_date dt_2359) doc_2359"
    by (simp add: row_of_file_def build_entities_xml_with_one_def doc_2359_def[symmetric] p
          valid_2359(3))
  also have "map_option Hours \<dots> = Some (round_nd lib_2359 (round_nd lib_2359 333333 6) 3)"
    unfolding doc_2359_def o[symmetric]
    by (simp add: row_of_built[OF valid_2359(1,2) z fl])
  finally have a: "map_option Hours
      (row_of_file lib_2359 day_2026_01_08 (Some (build_entities_xml_with_one lib_2359 occ_2359)))
      = Some 333000"
    by (simp add: float_third(2)[of "[doc_2359]", folded lib_2359_def])
  have c: "build_occupation_element lib_2359 301 (u ''JOE'')
             \<lparr>dt_year = 2026, dt_month = 1, dt_day = 8, dt_hour = 10, dt_minute = 0, dt_second = 0\<rparr>
             1000000 (u ''WO-7'') (u ''NORMAL'') [] [97, 8, 98] = rec_ctrl"
    by (simp add: lib_2359_def build_lib rec_ctrl_def)
  have "(8::nat) \<in> set (serialize_xml (append_child fresh_entities rec_ctrl))"
    using serialize_appended[of rec_ctrl fresh_entities] rec_ctrl_ctrl by auto
  then have "fromstring lib_2359
               (lstrip_padding (xml_to_bytes lib_2359 (append_child fresh_entities rec_ctrl))) = None"
    unfolding lib_2359_def by (rule fromstring_ctrl)
  then have b: "row_of_file lib_2359 day_2026_01_08
                  (Some (build_entities_xml_with_one lib_2359 rec_ctrl)) = None"
    by (simp add: row_of_file_def build_entities_xml_with_one_def)
  from a b show ?thesis unfolding o c by simp
qed

text \<open>
  Claim C7, as the specification has it, fails at a document whose occupation has a
  timestamp and nothing else: there is no work-order code and no duration, and the
  document is not skipped. It gives the row with the empty work-order code and the
  duration 0.
\<close>

theorem missing_fields_give_row:
  "find_child (u ''occupation_WO'') occ_date_only = None
   \<and> find_child (u ''occupation_duration'') occ_date_only = None
   \<and> rows (get_user_entries_for_day lib_date_only
              (Some [Some (xml_to_bytes lib_date_only doc_date_only)]) day_2026_01_08)
       = [\<lparr>Time = u ''10:00:00'', WO = [], Time_Type = [], Occ_Type = [], Hours = 0, Comment = []\<rparr>]"
proof -
  let ?b = "xml_to_bytes lib_date_only doc_date_only"
  define dt where
    "dt = \<lparr>dt_year = 2026, dt_month = 1, dt_day = 8, dt_hour = 10, dt_minute = 0, dt_second = 0\<rparr>"
  have p: "fromstring lib_date_only (lstrip_padding ?b) = Some doc_date_only"
    unfolding lib_date_only_def by (rule fromstring_first[OF doc_date_only_facts(4,1)])
  have s: "py_strip lib_date_only (u ''2026-01-08 10:00:00'') = u ''2026-01-08 10:00:00''"
    unfolding lib_date_only_def by (rule plain_strip_ascii) (simp_all add: u_def)
  have fc: "find_child (u ''occupation_occupationDate'') occ_date_only
      = Some (Element (u ''occupation_occupationDate'') [] (Some (u ''2026-01-08 10:00:00'')) [] None)"
      "find_child (u ''occupation_WO'') occ_date_only = None"
      "find_child (u ''occupation_duration'') occ_date_only = None"
      "find_child (u ''occupation_hourType'') occ_date_only = None"
      "find_child (u ''occupation_type'') occ_date_only = None"
      "find_child (u ''occupation_comments'') occ_date_only = None"
    by (simp_all add: occ_date_only_def find_child_def u_def)
  have ne: "u ''2026-01-08 10:00:00'' \<noteq> []" by (simp add: u_def)
  have t: "safe_text lib_date_only (find_child (u ''occupation_occupationDate'') occ_date_only) []
             = u ''2026-01-08 10:00:00''"
    using ne by (simp add: fc safe_text_def text_or_def s)
  have z: "\<not> tz_fails lib_date_only dt"
    by (simp add: lib_date_only_def eval_lib_sel)
  have sp: "strptime lib_date_only (u ''2026-01-08 10:00:00'') = Some dt"
    unfolding dt_def by (rule strptime_10)
  have ot: "occupation_time lib_date_only doc_date_only = Some dt"
    using ne z by (simp add: occupation_time_def doc_date_only_facts t sp tz_localize_def)
  have dd: "dt_date dt = day_2026_01_08"
    by (simp add: dt_def dt_date_def day_2026_01_08_def)
  have fl: "safe_float lib_date_only (u ''0'') = 0" "round_nd lib_date_only 0 3 = 0"
    by (simp_all add: safe_float_def lib_date_only_def eval_lib_def fx_of_str_def ascii_digits_def
          nat_of_digits_def fx_round_def u_def replicate_6)
  have hm: "strftime_hms dt = u ''10:00:00''"
    by (simp add: dt_def strftime_hms_def zpad2 u_def)
  have ra: "row_at lib_date_only occ_date_only dt
      = \<lparr>Time = u ''10:00:00'', WO = [], Time_Type = [], Occ_Type = [], Hours = 0, Comment = []\<rparr>"
    by (simp add: row_at_def fc safe_attr_def safe_text_def fl hm)
  have r: "row_of_file lib_date_only day_2026_01_08 (Some ?b)
      = Some \<lparr>Time = u ''10:00:00'', WO = [], Time_Type = [], Occ_Type = [], Hours = 0, Comment = []\<rparr>"
    by (simp add: row_of_file_def p occupation_time_row ot dd doc_date_only_facts ra)
  have "rows (get_user_entries_for_day lib_date_only (Some [Some ?b]) day_2026_01_08)
       = [\<lparr>Time = u ''10:00:00'', WO = [], Time_Type = [], Occ_Type = [], Hours = 0, Comment = []\<rparr>]"
    by (simp add: rows_eq List.map_filter_simps r sort_values_def)
  with fc(2,3) show ?thesis by simp
qed

end
